theory Spec2Isabelle
  imports Complex_Main
begin

section \<open>Floating-point values\<close>

text \<open>
  The analysis code computes with NumPy \<open>float64\<close> scalars (pandas aggregates return them).
  A \<open>float64\<close> operation never raises: a division by zero yields an infinity or NaN
  (with a warning), and NaN propagates through every later operation and makes every
  comparison false. The model keeps exactly that: a value is a real number, one of the two
  infinities, or NaN. Rounding error, overflow and the sign of zero are abstracted away
  (a finite value is an exact real, and a zero divisor counts as \<open>+0\<close>).
\<close>

datatype pyfloat = Fin real | PInf | NInf | NaN

fun fneg :: "pyfloat \<Rightarrow> pyfloat" where
  "fneg (Fin x) = Fin (- x)"
| "fneg PInf = NInf"
| "fneg NInf = PInf"
| "fneg NaN = NaN"

fun fadd :: "pyfloat \<Rightarrow> pyfloat \<Rightarrow> pyfloat" where
  "fadd NaN _ = NaN"
| "fadd _ NaN = NaN"
| "fadd (Fin x) (Fin y) = Fin (x + y)"
| "fadd PInf NInf = NaN"
| "fadd NInf PInf = NaN"
| "fadd PInf _ = PInf"
| "fadd _ PInf = PInf"
| "fadd NInf _ = NInf"
| "fadd _ NInf = NInf"

definition fsub :: "pyfloat \<Rightarrow> pyfloat \<Rightarrow> pyfloat" where
  "fsub a b = fadd a (fneg b)"

text \<open>The sign of a value that is not NaN: \<open>-1\<close>, \<open>0\<close> or \<open>1\<close>.\<close>

fun fsign :: "pyfloat \<Rightarrow> int" where
  "fsign (Fin x) = (if x < 0 then - 1 else if x = 0 then 0 else 1)"
| "fsign PInf = 1"
| "fsign NInf = - 1"
| "fsign NaN = 0"

definition of_sign :: "int \<Rightarrow> pyfloat" where
  "of_sign s = (if s = 0 then NaN else if 0 < s then PInf else NInf)"

fun fmul :: "pyfloat \<Rightarrow> pyfloat \<Rightarrow> pyfloat" where
  "fmul NaN _ = NaN"
| "fmul _ NaN = NaN"
| "fmul (Fin x) (Fin y) = Fin (x * y)"
| "fmul a b = of_sign (fsign a * fsign b)"

fun fdiv :: "pyfloat \<Rightarrow> pyfloat \<Rightarrow> pyfloat" where
  "fdiv NaN _ = NaN"
| "fdiv _ NaN = NaN"
| "fdiv (Fin x) (Fin y) = (if y \<noteq> 0 then Fin (x / y) else of_sign (fsign (Fin x)))"
| "fdiv (Fin x) _ = Fin 0"
| "fdiv a (Fin y) = (if y < 0 then fneg a else a)"
| "fdiv _ _ = NaN"

definition fsquare :: "pyfloat \<Rightarrow> pyfloat" where
  "fsquare a = fmul a a"

fun fsqrt :: "pyfloat \<Rightarrow> pyfloat" where
  "fsqrt (Fin x) = (if x < 0 then NaN else Fin (sqrt x))"
| "fsqrt PInf = PInf"
| "fsqrt NInf = NaN"
| "fsqrt NaN = NaN"

fun fabs :: "pyfloat \<Rightarrow> pyfloat" where
  "fabs (Fin x) = Fin \<bar>x\<bar>"
| "fabs PInf = PInf"
| "fabs NInf = PInf"
| "fabs NaN = NaN"

fun flt :: "pyfloat \<Rightarrow> pyfloat \<Rightarrow> bool" where
  "flt NaN _ = False"
| "flt _ NaN = False"
| "flt (Fin x) (Fin y) = (x < y)"
| "flt _ NInf = False"
| "flt PInf _ = False"
| "flt _ _ = True"

definition fgt :: "pyfloat \<Rightarrow> pyfloat \<Rightarrow> bool" where
  "fgt a b = flt b a"

fun fle :: "pyfloat \<Rightarrow> pyfloat \<Rightarrow> bool" where
  "fle NaN _ = False"
| "fle _ NaN = False"
| "fle (Fin x) (Fin y) = (x \<le> y)"
| "fle NInf _ = True"
| "fle _ PInf = True"
| "fle _ _ = False"

definition fge :: "pyfloat \<Rightarrow> pyfloat \<Rightarrow> bool" where
  "fge a b = fle b a"

fun is_nan :: "pyfloat \<Rightarrow> bool" where
  "is_nan NaN = True"
| "is_nan _ = False"

text \<open>
  \<open>round(x, n)\<close> on a \<open>float64\<close>: scale by \<open>10 ^ n\<close>, round to the nearest integer with ties
  to the even one, scale back. Infinities and NaN are returned as they are.
\<close>

definition round_half_even :: "real \<Rightarrow> int" where
  "round_half_even y =
     (let f = \<lfloor>y\<rfloor>; d = y - of_int f
      in if d < 1 / 2 then f else if 1 / 2 < d then f + 1 else if even f then f else f + 1)"

definition round_to :: "nat \<Rightarrow> real \<Rightarrow> real" where
  "round_to n x = of_int (round_half_even (x * 10 ^ n)) / 10 ^ n"

fun fround :: "pyfloat \<Rightarrow> nat \<Rightarrow> pyfloat" where
  "fround (Fin x) n = Fin (round_to n x)"
| "fround a _ = a"

fun fceil :: "pyfloat \<Rightarrow> pyfloat" where
  "fceil (Fin x) = Fin (of_int \<lceil>x\<rceil>)"
| "fceil a = a"

fun farcsin :: "pyfloat \<Rightarrow> pyfloat" where
  "farcsin (Fin x) = (if - 1 \<le> x \<and> x \<le> 1 then Fin (arcsin x) else NaN)"
| "farcsin _ = NaN"

text \<open>
  \<open>int(x)\<close> truncates a finite float toward zero; it raises \<open>OverflowError\<close> on an infinity
  and \<open>ValueError\<close> on NaN. \<open>ZeroDivisionError\<close> is what dividing a Python (not NumPy)
  float by zero raises.
\<close>

datatype py_error = OverflowError | ValueError | ZeroDivisionError

fun py_int :: "pyfloat \<Rightarrow> py_error + int" where
  "py_int (Fin x) = Inr (if 0 \<le> x then \<lfloor>x\<rfloor> else \<lceil>x\<rceil>)"
| "py_int PInf = Inl OverflowError"
| "py_int NInf = Inl OverflowError"
| "py_int NaN = Inl ValueError"


section \<open>The dataset and its pandas aggregates\<close>

text \<open>
  One row of the table read by \<open>pd.read_csv\<close>. \<open>converted\<close> is an integer column;
  \<open>time_spent\<close>, \<open>clicks\<close> and \<open>session_count\<close> are numeric columns in which a cell may be
  missing (pandas stores NaN there; \<open>None\<close> here).
\<close>

record observation =
  user_id :: nat
  group_label :: string
  converted :: int
  time_spent :: "real option"
  clicks :: "real option"
  session_count :: "real option"
  date :: string

type_synonym dataset = "observation list"

text \<open>\<open>df[df["group"] == g]\<close>: the rows whose label is exactly \<open>g\<close>, in order.\<close>

definition rows_of :: "string \<Rightarrow> dataset \<Rightarrow> dataset" where
  "rows_of g df = filter (\<lambda>r. group_label r = g) df"

text \<open>
  The metric columns the functions are called with. \<open>independent_ttest\<close>,
  \<open>ci_difference_means\<close> take the column name as a string; every call in the
  repository passes \<open>"time_spent"\<close> or \<open>"clicks"\<close>.
\<close>

datatype metric = Time_spent | Clicks

fun metric_name :: "metric \<Rightarrow> string" where
  "metric_name Time_spent = ''time_spent''"
| "metric_name Clicks = ''clicks''"

fun column :: "metric \<Rightarrow> observation \<Rightarrow> real option" where
  "column Time_spent = time_spent"
| "column Clicks = clicks"

text \<open>\<open>Series.dropna()\<close>.\<close>

fun dropna :: "real option list \<Rightarrow> real list" where
  "dropna [] = []"
| "dropna (None # xs) = dropna xs"
| "dropna (Some x # xs) = x # dropna xs"

text \<open>
  \<open>Series.mean()\<close>, \<open>Series.var(ddof=1)\<close> and \<open>Series.std()\<close> on the values that are
  present: the mean of no value is NaN, and so is the sample variance of fewer than two.
\<close>

definition series_mean :: "real list \<Rightarrow> pyfloat" where
  "series_mean xs = (if xs = [] then NaN else Fin (sum_list xs / real (length xs)))"

definition sample_var :: "real list \<Rightarrow> real" where
  "sample_var xs =
     (let m = sum_list xs / real (length xs)
      in (\<Sum>x\<leftarrow>xs. (x - m)\<^sup>2) / (real (length xs) - 1))"

definition series_var :: "real list \<Rightarrow> pyfloat" where
  "series_var xs = (if length xs \<le> 1 then NaN else Fin (sample_var xs))"

definition series_std :: "real list \<Rightarrow> pyfloat" where
  "series_std xs = fsqrt (series_var xs)"

text \<open>The aggregates of the \<open>converted\<close> column: \<open>.sum()\<close> and \<open>.mean()\<close>.\<close>

definition conversions :: "dataset \<Rightarrow> int" where
  "conversions rows = sum_list (map converted rows)"

definition conversion_mean :: "dataset \<Rightarrow> pyfloat" where
  "conversion_mean rows = series_mean (map (\<lambda>r. real_of_int (converted r)) rows)"

text \<open>\<open>rows[col].mean()\<close> and \<open>rows[col].std()\<close> of a numeric column skip missing cells.\<close>

definition col_mean :: "(observation \<Rightarrow> real option) \<Rightarrow> dataset \<Rightarrow> pyfloat" where
  "col_mean col rows = series_mean (dropna (map col rows))"

definition col_std :: "(observation \<Rightarrow> real option) \<Rightarrow> dataset \<Rightarrow> pyfloat" where
  "col_std col rows = series_std (dropna (map col rows))"

section \<open>The distribution functions of \<open>scipy.stats\<close>\<close>

text \<open>
  The code calls \<open>stats.norm.cdf\<close>, \<open>stats.norm.ppf\<close>, \<open>stats.t.ppf\<close> and
  \<open>stats.ttest_ind\<close>. They belong to SciPy, not to this repository, so the model takes
  them as parameters: the mathematical functions on the reals, and Welch's test as a
  function of the two samples that returns the statistic and the p-value.
  What SciPy does outside the functions' domains is written out here: NaN for a NaN
  argument, for a probability outside \<open>[0, 1]\<close> and for degrees of freedom that are not
  positive; the infinities at probability 0 and 1. (Infinite degrees of freedom do not
  arise from the Welch formula on finite data.)
\<close>

record stats_lib =
  norm_cdf :: "real \<Rightarrow> real"
  norm_ppf :: "real \<Rightarrow> real"
  t_ppf :: "real \<Rightarrow> real \<Rightarrow> real"
  ttest_ind :: "real list \<Rightarrow> real list \<Rightarrow> pyfloat \<times> pyfloat"

fun stats_norm_cdf :: "stats_lib \<Rightarrow> pyfloat \<Rightarrow> pyfloat" where
  "stats_norm_cdf L (Fin x) = Fin (norm_cdf L x)"
| "stats_norm_cdf L PInf = Fin 1"
| "stats_norm_cdf L NInf = Fin 0"
| "stats_norm_cdf L NaN = NaN"

definition quantile_at :: "(real \<Rightarrow> real) \<Rightarrow> real \<Rightarrow> pyfloat" where
  "quantile_at q p =
     (if p < 0 \<or> 1 < p then NaN else if p = 0 then NInf else if p = 1 then PInf
      else Fin (q p))"

definition stats_norm_ppf :: "stats_lib \<Rightarrow> real \<Rightarrow> pyfloat" where
  "stats_norm_ppf L p = quantile_at (norm_ppf L) p"

fun stats_t_ppf :: "stats_lib \<Rightarrow> real \<Rightarrow> pyfloat \<Rightarrow> pyfloat" where
  "stats_t_ppf L p (Fin d) = (if d \<le> 0 then NaN else quantile_at (\<lambda>p. t_ppf L p d) p)"
| "stats_t_ppf L p _ = NaN"

section \<open>The functions imported from \<open>statsmodels\<close>\<close>

text \<open>
  \<open>hypothesis_tests.py\<close> and \<open>power_analysis.py\<close> import \<open>proportions_ztest\<close>,
  \<open>NormalIndPower\<close> and \<open>TTestIndPower\<close> from \<open>statsmodels\<close> inside a \<open>try\<close>, and define
  replacements of their own under \<open>except ImportError\<close>. Which of the two a call reaches is
  fixed when the module is loaded, so the model takes it as a parameter: the library, or
  the fallback. (The application as a whole loads only with the library:
  \<open>confidence_intervals.py\<close> imports it with no \<open>try\<close>.)

  The library's two \<open>solve_power\<close> methods are numerical solvers and stay parameters;
  what the model writes out is that they refuse an effect size of 0 with \<open>ValueError\<close>.
\<close>

record statsmodels_lib =
  normal_ind_solve :: "pyfloat \<Rightarrow> real \<Rightarrow> real \<Rightarrow> py_error + pyfloat"
  ttest_ind_solve :: "pyfloat \<Rightarrow> real \<Rightarrow> real \<Rightarrow> py_error + pyfloat"

datatype backend = Statsmodels statsmodels_lib | Fallback

definition statsmodels_solve_power ::
  "(pyfloat \<Rightarrow> real \<Rightarrow> real \<Rightarrow> py_error + pyfloat) \<Rightarrow> pyfloat \<Rightarrow> real \<Rightarrow> real
     \<Rightarrow> py_error + pyfloat" where
  "statsmodels_solve_power solver effect_size a pw =
     (if effect_size = Fin 0 then Inl ValueError else solver effect_size a pw)"

text \<open>
  The library's \<open>proportions_ztest(count, nobs, alternative="two-sided")\<close>: the difference
  of the two proportions over the pooled standard error, with no test of that standard
  error, and the p-value \<open>2 * norm.sf(\<bar>z\<bar>)\<close>.
\<close>

definition statsmodels_proportions_ztest ::
  "stats_lib \<Rightarrow> int \<times> int \<Rightarrow> int \<times> int \<Rightarrow> pyfloat \<times> pyfloat" where
  "statsmodels_proportions_ztest L count nobs =
     (let p1 = fdiv (Fin (of_int (fst count))) (Fin (of_int (fst nobs)));
          p2 = fdiv (Fin (of_int (snd count))) (Fin (of_int (snd nobs)));
          p_pooled = fdiv (Fin (of_int (fst count + snd count))) (Fin (of_int (fst nobs + snd nobs)));
          nobs_fact = fadd (fdiv (Fin 1) (Fin (of_int (fst nobs)))) (fdiv (Fin 1) (Fin (of_int (snd nobs))));
          std_diff = fsqrt (fmul (fmul p_pooled (fsub (Fin 1) p_pooled)) nobs_fact);
          z = fdiv (fsub p1 p2) std_diff;
          p = fmul (fsub (Fin 1) (stats_norm_cdf L (fabs z))) (Fin 2)
      in (z, p))"

section \<open>Hypothesis tests (\<open>hypothesis_tests.py\<close>)\<close>

text \<open>
  The module's own \<open>proportions_ztest\<close>, defined when \<open>statsmodels\<close> cannot be imported.
  \<open>count\<close> and \<open>nobs\<close> are the two-element arrays of the call.
\<close>

definition proportions_ztest :: "stats_lib \<Rightarrow> int \<times> int \<Rightarrow> int \<times> int \<Rightarrow> pyfloat \<times> pyfloat" where
  "proportions_ztest L count nobs =
     (let p1 = fdiv (Fin (of_int (fst count))) (Fin (of_int (fst nobs)));
          p2 = fdiv (Fin (of_int (snd count))) (Fin (of_int (snd nobs)));
          p_pool = fdiv (Fin (of_int (fst count + snd count))) (Fin (of_int (fst nobs + snd nobs)));
          se = fsqrt (fmul (fmul p_pool (fsub (Fin 1) p_pool))
                 (fadd (fdiv (Fin 1) (Fin (of_int (fst nobs)))) (fdiv (Fin 1) (Fin (of_int (snd nobs))))));
          z = (if fgt se (Fin 0) then fdiv (fsub p1 p2) se else Fin 0);
          p = fmul (Fin 2) (fsub (Fin 1) (stats_norm_cdf L (fabs z)))
      in (z, p))"

text \<open>The name \<open>proportions_ztest\<close> as line 59 finds it bound.\<close>

definition bound_proportions_ztest ::
  "backend \<Rightarrow> stats_lib \<Rightarrow> int \<times> int \<Rightarrow> int \<times> int \<Rightarrow> pyfloat \<times> pyfloat" where
  "bound_proportions_ztest b L count nobs =
     (case b of
        Statsmodels S \<Rightarrow> statsmodels_proportions_ztest L count nobs
      | Fallback \<Rightarrow> proportions_ztest L count nobs)"

text \<open>
  The interpretation is an f-string; the model keeps the values it interpolates (two
  rates or means, then the uplift or the difference) and which closing sentence it takes.
\<close>

datatype interpretation_text =
  Conversion_text pyfloat pyfloat pyfloat bool
| Metric_text string pyfloat pyfloat pyfloat bool

record test_result =
  metric :: string
  test_type :: string
  statistic :: pyfloat
  p_value :: pyfloat
  significant :: bool
  alpha :: real
  interpretation_of :: interpretation_text

text \<open>Lines 62 to 64 of \<open>two_proportion_ztest\<close>: the uplift shown in the interpretation.\<close>

definition ztest_uplift :: "dataset \<Rightarrow> pyfloat" where
  "ztest_uplift df =
     (let control = rows_of ''control'' df; variant = rows_of ''variant'' df;
          rate_c = fdiv (Fin (of_int (conversions control))) (Fin (real (length control)));
          rate_v = fdiv (Fin (of_int (conversions variant))) (Fin (real (length variant)))
      in fmul (fdiv (fsub rate_v rate_c) rate_c) (Fin 100))"

definition two_proportion_ztest :: "backend \<Rightarrow> stats_lib \<Rightarrow> dataset \<Rightarrow> real \<Rightarrow> test_result" where
  "two_proportion_ztest b L df a =
     (let control = rows_of ''control'' df; variant = rows_of ''variant'' df;
          n_c = int (length control); n_v = int (length variant);
          conv_c = conversions control; conv_v = conversions variant;
          (z_stat, p_val) = bound_proportions_ztest b L (conv_v, conv_c) (n_v, n_c);
          sig = flt p_val (Fin a);
          rate_c = fdiv (Fin (of_int conv_c)) (Fin (of_int n_c));
          rate_v = fdiv (Fin (of_int conv_v)) (Fin (of_int n_v))
      in \<lparr> metric = ''conversion_rate'',
           test_type = ''Two-Proportion Z-Test'',
           statistic = fround z_stat 4,
           p_value = fround p_val 6,
           significant = sig,
           alpha = a,
           interpretation_of = Conversion_text rate_c rate_v (ztest_uplift df) sig \<rparr>)"

definition independent_ttest :: "stats_lib \<Rightarrow> dataset \<Rightarrow> metric \<Rightarrow> real \<Rightarrow> test_result" where
  "independent_ttest L df m a =
     (let control_vals = dropna (map (column m) (rows_of ''control'' df));
          variant_vals = dropna (map (column m) (rows_of ''variant'' df));
          (t_stat, p_val) = ttest_ind L control_vals variant_vals;
          sig = flt p_val (Fin a);
          mean_c = series_mean control_vals;
          mean_v = series_mean variant_vals;
          diff = fsub mean_v mean_c
      in \<lparr> metric = metric_name m,
           test_type = ''Independent T-Test (Welch)'',
           statistic = fround t_stat 4,
           p_value = fround p_val 6,
           significant = sig,
           alpha = a,
           interpretation_of = Metric_text (metric_name m) mean_c mean_v diff sig \<rparr>)"

record all_tests =
  conversion_rate_test :: test_result
  time_spent_test :: test_result
  clicks_test :: test_result

definition run_all_tests :: "backend \<Rightarrow> stats_lib \<Rightarrow> dataset \<Rightarrow> real \<Rightarrow> all_tests" where
  "run_all_tests b L df a =
     \<lparr> conversion_rate_test = two_proportion_ztest b L df a,
       time_spent_test = independent_ttest L df Time_spent a,
       clicks_test = independent_ttest L df Clicks a \<rparr>"

section \<open>Confidence intervals (\<open>confidence_intervals.py\<close>)\<close>

record confidence_interval =
  ci_metric :: string
  lower :: pyfloat
  upper :: pyfloat
  point_estimate :: pyfloat
  confidence_level :: real

text \<open>
  pandas returns NumPy \<open>float64\<close> values for the mean and the variance of a column that
  has values, and the Python float \<open>nan\<close> for those of an empty column. A \<open>float64\<close>
  division by zero only warns; a Python float divided by the integer 0 raises
  \<open>ZeroDivisionError\<close>. In the two interval functions the divisor \<open>n_c\<close> or \<open>n_v\<close> is 0
  exactly when the group is empty, that is when its mean and variance are the Python
  \<open>nan\<close>: the line that computes \<open>se\<close> raises then, and nothing is returned.
\<close>

definition ci_difference_proportions ::
  "stats_lib \<Rightarrow> dataset \<Rightarrow> real \<Rightarrow> py_error + confidence_interval" where
  "ci_difference_proportions L df confidence =
     (let control = rows_of ''control'' df; variant = rows_of ''variant'' df;
          n_c = Fin (real (length control)); n_v = Fin (real (length variant));
          p_c = conversion_mean control;
          p_v = conversion_mean variant;
          diff = fsub p_v p_c
      in if control = [] \<or> variant = [] then Inl ZeroDivisionError
         else
           (let se = fsqrt (fadd (fdiv (fmul p_c (fsub (Fin 1) p_c)) n_c)
                                 (fdiv (fmul p_v (fsub (Fin 1) p_v)) n_v));
                z = stats_norm_ppf L (1 - (1 - confidence) / 2);
                lo = fsub diff (fmul z se);
                up = fadd diff (fmul z se)
            in Inr \<lparr> ci_metric = ''conversion_rate_difference'',
                     lower = fround lo 6,
                     upper = fround up 6,
                     point_estimate = fround diff 6,
                     confidence_level = confidence \<rparr>))"

text \<open>The Welch-Satterthwaite degrees of freedom, as \<open>ci_difference_means\<close> computes them.\<close>

definition df_welch :: "pyfloat \<Rightarrow> pyfloat \<Rightarrow> int \<Rightarrow> int \<Rightarrow> pyfloat" where
  "df_welch var_c var_v n_c n_v =
     fdiv (fsquare (fadd (fdiv var_c (Fin (of_int n_c))) (fdiv var_v (Fin (of_int n_v)))))
          (fadd (fdiv (fsquare (fdiv var_c (Fin (of_int n_c)))) (Fin (of_int (n_c - 1))))
                (fdiv (fsquare (fdiv var_v (Fin (of_int n_v)))) (Fin (of_int (n_v - 1)))))"

definition ci_difference_means ::
  "stats_lib \<Rightarrow> dataset \<Rightarrow> metric \<Rightarrow> real \<Rightarrow> py_error + confidence_interval" where
  "ci_difference_means L df m confidence =
     (let control_vals = dropna (map (column m) (rows_of ''control'' df));
          variant_vals = dropna (map (column m) (rows_of ''variant'' df));
          mean_c = series_mean control_vals; mean_v = series_mean variant_vals;
          diff = fsub mean_v mean_c;
          n_c = int (length control_vals); n_v = int (length variant_vals);
          var_c = series_var control_vals; var_v = series_var variant_vals
      in if control_vals = [] \<or> variant_vals = [] then Inl ZeroDivisionError
         else
           (let se = fsqrt (fadd (fdiv var_c (Fin (of_int n_c))) (fdiv var_v (Fin (of_int n_v))));
                t_crit = stats_t_ppf L (1 - (1 - confidence) / 2) (df_welch var_c var_v n_c n_v);
                lo = fsub diff (fmul t_crit se);
                up = fadd diff (fmul t_crit se)
            in Inr \<lparr> ci_metric = metric_name m @ ''_difference'',
                     lower = fround lo 4,
                     upper = fround up 4,
                     point_estimate = fround diff 4,
                     confidence_level = confidence \<rparr>))"

record all_cis =
  conversion_rate_ci :: confidence_interval
  time_spent_ci :: confidence_interval
  clicks_ci :: confidence_interval

definition compute_all_cis :: "stats_lib \<Rightarrow> dataset \<Rightarrow> real \<Rightarrow> py_error + all_cis" where
  "compute_all_cis L df confidence =
     (case ci_difference_proportions L df confidence of
        Inl e \<Rightarrow> Inl e
      | Inr conv_ci \<Rightarrow>
     (case ci_difference_means L df Time_spent confidence of
        Inl e \<Rightarrow> Inl e
      | Inr time_ci \<Rightarrow>
     (case ci_difference_means L df Clicks confidence of
        Inl e \<Rightarrow> Inl e
      | Inr clicks_interval \<Rightarrow>
          Inr \<lparr> conversion_rate_ci = conv_ci,
                time_spent_ci = time_ci,
                clicks_ci = clicks_interval \<rparr>)))"

section \<open>Power analysis (\<open>power_analysis.py\<close>)\<close>

text \<open>
  The module's own \<open>NormalIndPower.solve_power\<close> and \<open>TTestIndPower.solve_power\<close>, defined
  when \<open>statsmodels\<close> cannot be imported.
\<close>

definition normal_solve_power :: "stats_lib \<Rightarrow> pyfloat \<Rightarrow> real \<Rightarrow> real \<Rightarrow> pyfloat" where
  "normal_solve_power L effect_size a pw =
     (let z_alpha = stats_norm_ppf L (1 - a / 2);
          z_beta = stats_norm_ppf L pw
      in if fgt effect_size (Fin 0) then fsquare (fdiv (fadd z_alpha z_beta) effect_size)
         else PInf)"

definition ttest_solve_power :: "stats_lib \<Rightarrow> pyfloat \<Rightarrow> real \<Rightarrow> real \<Rightarrow> pyfloat" where
  "ttest_solve_power L effect_size a pw =
     (let z_alpha = stats_norm_ppf L (1 - a / 2);
          z_beta = stats_norm_ppf L pw
      in if fgt effect_size (Fin 0)
         then fmul (Fin 2) (fsquare (fdiv (fadd z_alpha z_beta) effect_size))
         else PInf)"

definition cohens_d :: "pyfloat \<Rightarrow> pyfloat \<Rightarrow> pyfloat \<Rightarrow> pyfloat \<Rightarrow> pyfloat" where
  "cohens_d mean1 mean2 std1 std2 =
     (let pooled_std = fsqrt (fdiv (fadd (fsquare std1) (fsquare std2)) (Fin 2))
      in if fgt pooled_std (Fin 0) then fdiv (fabs (fsub mean2 mean1)) pooled_std else Fin 0)"

definition conversion_uplift :: "pyfloat \<Rightarrow> pyfloat \<Rightarrow> pyfloat" where
  "conversion_uplift p_control p_variant =
     (if fgt p_control (Fin 0)
      then fmul (fdiv (fsub p_variant p_control) p_control) (Fin 100)
      else Fin 0)"

definition effect_size_proportions :: "pyfloat \<Rightarrow> pyfloat \<Rightarrow> pyfloat" where
  "effect_size_proportions p1 p2 =
     fabs (fsub (fmul (Fin 2) (farcsin (fsqrt p2))) (fmul (Fin 2) (farcsin (fsqrt p1))))"

text \<open>
  One record for both result dictionaries: \<open>effect_size\<close> is the entry stored under
  \<open>"effect_size_h"\<close> by the conversion analysis and under \<open>"cohens_d"\<close> by the t-test one.
\<close>

record power_result =
  test :: string
  effect_size :: pyfloat
  required_sample_size_per_group :: int
  power_alpha :: real
  power_target :: real

text \<open>
  \<open>NormalIndPower().solve_power\<close> and \<open>TTestIndPower().solve_power\<close> as the two result
  functions find them bound: the library's solver, which may raise, or the module's
  own, which returns a float.
\<close>

definition bound_normal_solve_power ::
  "backend \<Rightarrow> stats_lib \<Rightarrow> pyfloat \<Rightarrow> real \<Rightarrow> real \<Rightarrow> py_error + pyfloat" where
  "bound_normal_solve_power b L effect a pw =
     (case b of
        Statsmodels S \<Rightarrow> statsmodels_solve_power (normal_ind_solve S) effect a pw
      | Fallback \<Rightarrow> Inr (normal_solve_power L effect a pw))"

definition bound_ttest_solve_power ::
  "backend \<Rightarrow> stats_lib \<Rightarrow> pyfloat \<Rightarrow> real \<Rightarrow> real \<Rightarrow> py_error + pyfloat" where
  "bound_ttest_solve_power b L effect a pw =
     (case b of
        Statsmodels S \<Rightarrow> statsmodels_solve_power (ttest_ind_solve S) effect a pw
      | Fallback \<Rightarrow> Inr (ttest_solve_power L effect a pw))"

definition power_analysis_conversion ::
  "backend \<Rightarrow> stats_lib \<Rightarrow> pyfloat \<Rightarrow> pyfloat \<Rightarrow> real \<Rightarrow> real \<Rightarrow> py_error + power_result" where
  "power_analysis_conversion b L p_control p_variant a pw =
     (let effect_h = effect_size_proportions p_control p_variant
      in case bound_normal_solve_power b L effect_h a pw of
           Inl e \<Rightarrow> Inl e
         | Inr required_n \<Rightarrow>
        (case py_int (fceil required_n) of
           Inl e \<Rightarrow> Inl e
         | Inr n \<Rightarrow> Inr \<lparr> test = ''Two-Proportion Z-Test'',
                         effect_size = fround effect_h 4,
                         required_sample_size_per_group = n,
                         power_alpha = a,
                         power_target = pw \<rparr>))"

definition power_analysis_ttest ::
  "backend \<Rightarrow> stats_lib \<Rightarrow> pyfloat \<Rightarrow> pyfloat \<Rightarrow> pyfloat \<Rightarrow> pyfloat \<Rightarrow> string \<Rightarrow> real \<Rightarrow> real
     \<Rightarrow> py_error + power_result" where
  "power_analysis_ttest b L mean1 mean2 std1 std2 name a pw =
     (let d = cohens_d mean1 mean2 std1 std2
      in case bound_ttest_solve_power b L d a pw of
           Inl e \<Rightarrow> Inl e
         | Inr required_n \<Rightarrow>
        (case py_int (fceil required_n) of
           Inl e \<Rightarrow> Inl e
         | Inr n \<Rightarrow> Inr \<lparr> test = ''Independent T-Test ('' @ name @ '')'',
                         effect_size = fround d 4,
                         required_sample_size_per_group = n,
                         power_alpha = a,
                         power_target = pw \<rparr>))"

record power_output =
  conversion_rate_power :: power_result
  time_spent_power :: power_result
  clicks_power :: power_result
  conversion_uplift_pct :: pyfloat
  actual_sample_size_per_group :: nat

text \<open>The default \<open>power=0.80\<close> of the two result functions, which this caller leaves as it is.\<close>

definition default_power :: real where
  "default_power = 80 / 100"

definition run_power_analysis ::
  "backend \<Rightarrow> stats_lib \<Rightarrow> dataset \<Rightarrow> real \<Rightarrow> py_error + power_output" where
  "run_power_analysis b L df a =
     (let control = rows_of ''control'' df; variant = rows_of ''variant'' df;
          p_c = conversion_mean control;
          p_v = conversion_mean variant
      in case power_analysis_conversion b L p_c p_v a default_power of
           Inl e \<Rightarrow> Inl e
         | Inr conv_power \<Rightarrow>
       (case power_analysis_ttest b L
               (col_mean time_spent control) (col_mean time_spent variant)
               (col_std time_spent control) (col_std time_spent variant)
               ''time_spent'' a default_power of
           Inl e \<Rightarrow> Inl e
         | Inr time_power \<Rightarrow>
       (case power_analysis_ttest b L
               (col_mean clicks control) (col_mean clicks variant)
               (col_std clicks control) (col_std clicks variant)
               ''clicks'' a default_power of
           Inl e \<Rightarrow> Inl e
         | Inr clicks_pw \<Rightarrow>
             Inr \<lparr> conversion_rate_power = conv_power,
                   time_spent_power = time_power,
                   clicks_power = clicks_pw,
                   conversion_uplift_pct = fround (conversion_uplift p_c p_v) 2,
                   actual_sample_size_per_group = length control \<rparr>)))"

section \<open>Metrics summary and recommendation (\<open>business_insights.py\<close>)\<close>

record group_stats =
  n_users :: nat
  conversion_rate :: pyfloat
  avg_time_spent :: pyfloat
  avg_clicks :: pyfloat
  avg_session_count :: pyfloat
  total_conversions :: int

record differences =
  conversion_rate_diff :: pyfloat
  time_spent_diff :: pyfloat
  clicks_diff :: pyfloat

record metrics_summary =
  control_stats :: group_stats
  variant_stats :: group_stats
  differences_of :: differences

definition group_summary :: "dataset \<Rightarrow> group_stats" where
  "group_summary rows =
     \<lparr> n_users = length rows,
       conversion_rate = fround (conversion_mean rows) 4,
       avg_time_spent = fround (col_mean time_spent rows) 4,
       avg_clicks = fround (col_mean clicks rows) 4,
       avg_session_count = fround (col_mean session_count rows) 4,
       total_conversions = conversions rows \<rparr>"

text \<open>
  \<open>compute_metrics_summary\<close> has no \<open>raise\<close> and calls nothing that raises (\<open>round\<close> with a
  digit count and \<open>int\<close> of an integer sum do not): it always returns the dictionary.
\<close>

definition compute_metrics_summary :: "dataset \<Rightarrow> metrics_summary" where
  "compute_metrics_summary df =
     (let control = rows_of ''control'' df; variant = rows_of ''variant'' df
      in \<lparr> control_stats = group_summary control,
           variant_stats = group_summary variant,
           differences_of =
             \<lparr> conversion_rate_diff =
                 fround (fsub (conversion_mean variant) (conversion_mean control)) 4,
               time_spent_diff =
                 fround (fsub (col_mean time_spent variant) (col_mean time_spent control)) 4,
               clicks_diff =
                 fround (fsub (col_mean clicks variant) (col_mean clicks control)) 4 \<rparr> \<rparr>)"

text \<open>
  The insight and rationale strings, kept as the template chosen and the values the
  f-string interpolates.
\<close>

datatype insight =
  Conversion_lift pyfloat pyfloat pyfloat
| Conversion_not_significant
| Time_gain pyfloat
| Clicks_gain pyfloat

datatype rationale_text =
  Multiple_metrics_improve
| Uplift_meaningful pyfloat
| No_primary_improvement
| Mixed_results

record business_insights =
  insights :: "insight list"
  recommendation :: string
  rationale :: rationale_text
  significant_metrics :: int
  total_metrics_tested :: int

text \<open>\<open>sum([conv_sig, time_sig, clicks_sig])\<close>: Python adds the booleans as 0 and 1.\<close>

definition sum_bools :: "bool list \<Rightarrow> int" where
  "sum_bools bs = sum_list (map (\<lambda>b. if b then 1 else 0) bs)"

definition generate_business_insights ::
  "metrics_summary \<Rightarrow> all_tests \<Rightarrow> power_output \<Rightarrow> business_insights" where
  "generate_business_insights metrics test_results pw =
     (let conv_sig = significant (conversion_rate_test test_results);
          time_sig = significant (time_spent_test test_results);
          clicks_sig = significant (clicks_test test_results);
          uplift = conversion_uplift_pct pw;
          diff = differences_of metrics;
          ins =
            (if conv_sig
             then [Conversion_lift uplift
                     (fmul (conversion_rate (control_stats metrics)) (Fin 100))
                     (fmul (conversion_rate (variant_stats metrics)) (Fin 100))]
             else [Conversion_not_significant])
            @ (if time_sig then [Time_gain (time_spent_diff diff)] else [])
            @ (if clicks_sig then [Clicks_gain (clicks_diff diff)] else []);
          significant_count = sum_bools [conv_sig, time_sig, clicks_sig];
          (rec, rat) =
            (if significant_count \<ge> 2 \<and> conv_sig \<and> fgt uplift (Fin 0)
             then (''ROLLOUT'', Multiple_metrics_improve)
             else if conv_sig \<and> fgt uplift (Fin 5)
             then (''ROLLOUT'', Uplift_meaningful uplift)
             else if significant_count = 1 \<and> \<not> conv_sig
             then (''DO NOT ROLLOUT'', No_primary_improvement)
             else (''MONITOR'', Mixed_results))
      in \<lparr> insights = ins,
           recommendation = rec,
           rationale = rat,
           significant_metrics = significant_count,
           total_metrics_tested = 3 \<rparr>)"

section \<open>The specification's formulas\<close>

text \<open>
  The two-proportion test as the specification words it, on the reals: the pooled
  proportion, the standard error, the statistic (0 when the standard error is 0) and the
  two-tailed p-value for a normal CDF \<open>Phi\<close>.
\<close>

definition spec_p_pool :: "int \<Rightarrow> int \<Rightarrow> nat \<Rightarrow> nat \<Rightarrow> real" where
  "spec_p_pool conv_c conv_v n_c n_v = real_of_int (conv_c + conv_v) / real (n_c + n_v)"

definition spec_se :: "int \<Rightarrow> int \<Rightarrow> nat \<Rightarrow> nat \<Rightarrow> real" where
  "spec_se conv_c conv_v n_c n_v =
     (let p_pool = spec_p_pool conv_c conv_v n_c n_v
      in sqrt (p_pool * (1 - p_pool) * (1 / real n_c + 1 / real n_v)))"

definition spec_z :: "int \<Rightarrow> int \<Rightarrow> nat \<Rightarrow> nat \<Rightarrow> real" where
  "spec_z conv_c conv_v n_c n_v =
     (let se = spec_se conv_c conv_v n_c n_v
      in if se = 0 then 0
         else (real_of_int conv_v / real n_v - real_of_int conv_c / real n_c) / se)"

definition spec_p_value :: "(real \<Rightarrow> real) \<Rightarrow> real \<Rightarrow> real" where
  "spec_p_value Phi z = 2 * (1 - Phi \<bar>z\<bar>)"

text \<open>A dataset whose \<open>converted\<close> column holds only 0 and 1.\<close>

definition binary_conversions :: "dataset \<Rightarrow> bool" where
  "binary_conversions df = list_all (\<lambda>r. converted r = 0 \<or> converted r = 1) df"

section \<open>Worked examples\<close>

text \<open>
  The standard normal CDF, by its power series around 0:
  \<open>Phi x = 1/2 + (1 / sqrt (2 pi)) * (\<Sum>n. (-1)^n x^(2n+1) / (2^n n! (2n+1)))\<close>.
\<close>

definition std_normal_cdf :: "real \<Rightarrow> real" where
  "std_normal_cdf x =
     1 / 2 + (\<Sum>n. (- 1) ^ n * x ^ (2 * n + 1) / (2 ^ n * fact n * real (2 * n + 1))) / sqrt (2 * pi)"

text \<open>
  A library instance for the examples: the normal CDF above, the two entries of the
  normal quantile table and the one entry of the \<open>t\<close> table that the examples read, and
  a Welch test that reports no difference.
\<close>

definition example_lib :: stats_lib where
  "example_lib =
     \<lparr> norm_cdf = std_normal_cdf,
       norm_ppf = (\<lambda>p. if p = 975 / 1000 then 1959964 / 1000000
                        else if p = 8 / 10 then 841621 / 1000000 else 0),
       t_ppf = (\<lambda>p d. if p = 975 / 1000 then 4302653 / 1000000 else 0),
       ttest_ind = (\<lambda>xs ys. (Fin 0, Fin 1)) \<rparr>"

definition obs :: "string \<Rightarrow> int \<Rightarrow> real \<Rightarrow> real \<Rightarrow> observation" where
  "obs g c t k =
     \<lparr> user_id = 0, group_label = g, converted = c, time_spent = Some t, clicks = Some k,
       session_count = Some 1, date = ''2024-12-31'' \<rparr>"

text \<open>Two users per group; nobody converts in control, everybody does in the variant.\<close>

definition example_df :: dataset where
  "example_df =
     [obs ''control'' 0 1 2, obs ''control'' 0 3 4, obs ''variant'' 1 2 2, obs ''variant'' 1 6 6]"

text \<open>
  The decision rule as the specification words it: the number of significant metrics
  among the three, and the four rules tried in order.
\<close>

definition count_significant :: "bool \<Rightarrow> bool \<Rightarrow> bool \<Rightarrow> nat" where
  "count_significant conv_sig time_sig clicks_sig = length (filter id [conv_sig, time_sig, clicks_sig])"

definition spec_recommendation :: "nat \<Rightarrow> bool \<Rightarrow> pyfloat \<Rightarrow> string" where
  "spec_recommendation n conv_sig uplift =
     (if 2 \<le> n \<and> conv_sig \<and> fgt uplift (Fin 0) then ''ROLLOUT''
      else if conv_sig \<and> fgt uplift (Fin 5) then ''ROLLOUT''
      else if n = 1 \<and> \<not> conv_sig then ''DO NOT ROLLOUT''
      else ''MONITOR'')"

text \<open>The two effect sizes as the specification words them, on the reals.\<close>

definition spec_cohens_d :: "real \<Rightarrow> real \<Rightarrow> real \<Rightarrow> real \<Rightarrow> real" where
  "spec_cohens_d mean1 mean2 std1 std2 =
     (let pooled_std = sqrt ((std1\<^sup>2 + std2\<^sup>2) / 2)
      in if pooled_std = 0 then 0 else \<bar>mean2 - mean1\<bar> / pooled_std)"

definition spec_cohens_h :: "real \<Rightarrow> real \<Rightarrow> real" where
  "spec_cohens_h p1 p2 = \<bar>2 * arcsin (sqrt p2) - 2 * arcsin (sqrt p1)\<bar>"

text \<open>Two users per group, none of whom converts.\<close>

definition no_conversion_df :: dataset where
  "no_conversion_df =
     [obs ''control'' 0 1 2, obs ''control'' 0 3 4, obs ''variant'' 0 2 2, obs ''variant'' 0 6 6]"

text \<open>
  A library whose solvers return the figure of the normal approximation for two groups,
  for the examples.
\<close>

definition example_statsmodels :: statsmodels_lib where
  "example_statsmodels =
     \<lparr> normal_ind_solve = (\<lambda>e a pw. Inr (fmul (Fin 2) (fsquare (fdiv (Fin (2801585 / 1000000)) e)))),
       ttest_ind_solve = (\<lambda>e a pw. Inr (fmul (Fin 2) (fsquare (fdiv (Fin (2801585 / 1000000)) e)))) \<rparr>"

text \<open>Two users in control, three in the variant, all columns differing between the groups.\<close>

definition uneven_df :: dataset where
  "uneven_df =
     [obs ''control'' 0 1 2, obs ''variant'' 1 2 3, obs ''control'' 0 3 4,
      obs ''variant'' 1 6 5, obs ''variant'' 1 7 7]"

text \<open>A dataset with no control rows.\<close>

definition variant_only_df :: dataset where
  "variant_only_df = [obs ''variant'' 1 2 3, obs ''variant'' 0 6 5]"

text \<open>The dataset restricted to the two valid group labels.\<close>

definition valid_rows :: "dataset \<Rightarrow> dataset" where
  "valid_rows df = filter (\<lambda>r. group_label r = ''control'' \<or> group_label r = ''variant'') df"

text \<open>The first example with a row of an unknown group in front.\<close>

definition mislabelled_df :: dataset where
  "mislabelled_df = obs ''holdout'' 1 50 60 # example_df"





text \<open>The terms of the series of the normal CDF, without their alternating sign.\<close>

definition cdf_term :: "real \<Rightarrow> nat \<Rightarrow> real" where
  "cdf_term x n = x ^ (2 * n + 1) / (2 ^ n * fact n * real (2 * n + 1))"

text \<open>
  One user in control, who does not convert, and eight in the variant, of whom three
  convert: the pooled proportion is \<open>1/3\<close>, the standard error \<open>1/2\<close> and \<open>z = 3/4\<close>.
\<close>

definition skewed_df :: dataset where
  "skewed_df =
     [obs ''control'' 0 1 2,
      obs ''variant'' 1 2 3, obs ''variant'' 1 3 3, obs ''variant'' 1 4 3, obs ''variant'' 0 5 3,
      obs ''variant'' 0 6 3, obs ''variant'' 0 7 3, obs ''variant'' 0 8 3, obs ''variant'' 0 9 3]"

section \<open>Facts about the examples and about rounding\<close>

lemma example_control: "rows_of ''control'' example_df = [obs ''control'' 0 1 2, obs ''control'' 0 3 4]"
  by (simp add: example_df_def rows_of_def obs_def)

lemma example_variant: "rows_of ''variant'' example_df = [obs ''variant'' 1 2 2, obs ''variant'' 1 6 6]"
  by (simp add: example_df_def rows_of_def obs_def)

lemma example_spec_z: "spec_z 0 2 2 2 = 2"
  by (simp add: spec_z_def spec_se_def spec_p_pool_def Let_def real_sqrt_divide)

lemma round_to_int: "round_to n (of_int k) = of_int k"
proof -
  have "of_int k * (10::real) ^ n = of_int (k * 10 ^ n)" by simp
  then have "round_half_even (of_int k * 10 ^ n) = k * 10 ^ n"
    unfolding round_half_even_def Let_def by (simp only: floor_of_int) simp
  then show ?thesis by (simp add: round_to_def)
qed

lemma py_int_fceil_fin: "py_int (fceil (Fin x)) = Inr \<lceil>x\<rceil>"
  by simp

lemma normal_solve_power_pos:
  assumes "stats_norm_ppf L (1 - a / 2) = Fin za" and "stats_norm_ppf L pw = Fin zb" and "0 < e"
  shows "normal_solve_power L (Fin e) a pw = Fin (((za + zb) / e)\<^sup>2)"
  using assms by (simp add: normal_solve_power_def fgt_def fsquare_def power2_eq_square)

lemma ttest_solve_power_pos:
  assumes "stats_norm_ppf L (1 - a / 2) = Fin za" and "stats_norm_ppf L pw = Fin zb" and "0 < e"
  shows "ttest_solve_power L (Fin e) a pw = Fin (2 * ((za + zb) / e)\<^sup>2)"
  using assms by (simp add: ttest_solve_power_def fgt_def fsquare_def power2_eq_square)

lemma solve_power_not_pos:
  assumes "\<not> fgt e (Fin 0)"
  shows "normal_solve_power L e a pw = PInf" "ttest_solve_power L e a pw = PInf"
  using assms by (simp_all add: normal_solve_power_def ttest_solve_power_def)

lemma example_lib_quantiles:
  "stats_norm_ppf example_lib (1 - (5 / 100) / 2) = Fin (1959964 / 1000000)"
  "stats_norm_ppf example_lib default_power = Fin (841621 / 1000000)"
  by (simp_all add: stats_norm_ppf_def quantile_at_def example_lib_def default_power_def)

section \<open>The two-proportion test\<close>

lemma conversions_bounds:
  "binary_conversions rows \<Longrightarrow> 0 \<le> conversions rows \<and> conversions rows \<le> int (length rows)"
  by (induction rows) (auto simp: binary_conversions_def conversions_def)

lemma binary_rows_of: "binary_conversions df \<Longrightarrow> binary_conversions (rows_of g df)"
  by (simp add: binary_conversions_def rows_of_def list_all_iff)

lemma spec_se_nonneg:
  assumes "0 \<le> a" "a \<le> int n" "0 \<le> b" "b \<le> int m" "0 < n" "0 < m"
  shows "0 \<le> spec_se a b n m"
proof -
  let ?p = "spec_p_pool a b n m"
  have "0 \<le> ?p" using assms by (simp add: spec_p_pool_def)
  moreover have "?p \<le> 1" using assms by (simp add: spec_p_pool_def)
  ultimately have "0 \<le> ?p * (1 - ?p)" by simp
  then have "0 \<le> ?p * (1 - ?p) * (1 / real n + 1 / real m)" by simp
  then show ?thesis by (simp add: spec_se_def Let_def)
qed

lemma proportions_ztest_spec:
  assumes "0 \<le> a" "a \<le> int n" "0 \<le> b" "b \<le> int m" "0 < n" "0 < m"
  shows "proportions_ztest L (b, a) (int m, int n) =
           (Fin (spec_z a b n m), Fin (spec_p_value (norm_cdf L) (spec_z a b n m)))"
proof -
  let ?p = "spec_p_pool a b n m"
  let ?se = "spec_se a b n m"
  have se0: "0 \<le> ?se" by (rule spec_se_nonneg[OF assms])
  have nz: "real m \<noteq> 0" "real n \<noteq> 0" "real m + real n \<noteq> 0" using assms by auto
  have pool: "fdiv (Fin (of_int (b + a))) (Fin (of_int (int m + int n))) = Fin ?p"
    using nz by (simp add: spec_p_pool_def add.commute)
  have arg: "fmul (fmul (Fin ?p) (fsub (Fin 1) (Fin ?p)))
               (fadd (fdiv (Fin 1) (Fin (of_int (int m)))) (fdiv (Fin 1) (Fin (of_int (int n)))))
             = Fin (?p * (1 - ?p) * (1 / real n + 1 / real m))"
    using nz by (simp add: fsub_def add.commute)
  have nonneg: "\<not> ?p * (1 - ?p) * (1 / real n + 1 / real m) < 0"
    using se0 by (simp add: spec_se_def Let_def not_less)
  have se: "fsqrt (Fin (?p * (1 - ?p) * (1 / real n + 1 / real m))) = Fin ?se"
    using nonneg by (simp add: spec_se_def Let_def)
  have z: "(if fgt (Fin ?se) (Fin 0)
            then fdiv (fsub (fdiv (Fin (of_int b)) (Fin (of_int (int m))))
                            (fdiv (Fin (of_int a)) (Fin (of_int (int n))))) (Fin ?se)
            else Fin 0) = Fin (spec_z a b n m)"
    using nz se0 by (auto simp: fgt_def fsub_def spec_z_def Let_def)
  show ?thesis
    unfolding proportions_ztest_def Let_def fst_conv snd_conv pool arg se z
    by (simp add: fsub_def spec_p_value_def)
qed

lemma ztest_on_partitions:
  assumes "binary_conversions df"
    and "rows_of ''control'' df \<noteq> []" and "rows_of ''variant'' df \<noteq> []"
  shows "proportions_ztest L
           (conversions (rows_of ''variant'' df), conversions (rows_of ''control'' df))
           (int (length (rows_of ''variant'' df)), int (length (rows_of ''control'' df)))
         = (Fin (spec_z (conversions (rows_of ''control'' df)) (conversions (rows_of ''variant'' df))
                   (length (rows_of ''control'' df)) (length (rows_of ''variant'' df))),
            Fin (spec_p_value (norm_cdf L)
                   (spec_z (conversions (rows_of ''control'' df)) (conversions (rows_of ''variant'' df))
                      (length (rows_of ''control'' df)) (length (rows_of ''variant'' df)))))"
proof -
  have c: "0 \<le> conversions (rows_of ''control'' df)"
      "conversions (rows_of ''control'' df) \<le> int (length (rows_of ''control'' df))"
    using conversions_bounds[OF binary_rows_of[OF assms(1)]] by auto
  have v: "0 \<le> conversions (rows_of ''variant'' df)"
      "conversions (rows_of ''variant'' df) \<le> int (length (rows_of ''variant'' df))"
    using conversions_bounds[OF binary_rows_of[OF assms(1)]] by auto
  have n: "0 < length (rows_of ''control'' df)" "0 < length (rows_of ''variant'' df)"
    using assms(2,3) by auto
  show ?thesis by (rule proportions_ztest_spec[OF c v n])
qed

lemma statsmodels_proportions_ztest_spec:
  assumes "0 \<le> a" "a \<le> int n" "0 \<le> b" "b \<le> int m" "0 < n" "0 < m"
    and pos: "0 < spec_se a b n m"
  shows "statsmodels_proportions_ztest L (b, a) (int m, int n) =
           (Fin (spec_z a b n m), Fin (spec_p_value (norm_cdf L) (spec_z a b n m)))"
proof -
  let ?p = "spec_p_pool a b n m"
  let ?se = "spec_se a b n m"
  have nz: "real m \<noteq> 0" "real n \<noteq> 0" "real m + real n \<noteq> 0" using assms by auto
  have pool: "fdiv (Fin (of_int (b + a))) (Fin (of_int (int m + int n))) = Fin ?p"
    using nz by (simp add: spec_p_pool_def add.commute)
  have arg: "fmul (fmul (Fin ?p) (fsub (Fin 1) (Fin ?p)))
               (fadd (fdiv (Fin 1) (Fin (of_int (int m)))) (fdiv (Fin 1) (Fin (of_int (int n)))))
             = Fin (?p * (1 - ?p) * (1 / real n + 1 / real m))"
    using nz by (simp add: fsub_def add.commute)
  have nonneg: "\<not> ?p * (1 - ?p) * (1 / real n + 1 / real m) < 0"
    using pos by (simp add: spec_se_def Let_def not_less less_eq_real_def)
  have se: "fsqrt (Fin (?p * (1 - ?p) * (1 / real n + 1 / real m))) = Fin ?se"
    using nonneg by (simp add: spec_se_def Let_def)
  have z: "fdiv (fsub (fdiv (Fin (of_int b)) (Fin (of_int (int m))))
                      (fdiv (Fin (of_int a)) (Fin (of_int (int n))))) (Fin ?se)
           = Fin (spec_z a b n m)"
    using nz pos by (simp add: fsub_def spec_z_def Let_def)
  show ?thesis
    unfolding statsmodels_proportions_ztest_def Let_def fst_conv snd_conv pool arg se z
    by (simp add: fsub_def spec_p_value_def)
qed

text \<open>
  Where the pooled standard error is positive, the library's test and the module's own
  agree with the specification's formulas.
\<close>

lemma bound_ztest_on_partitions:
  assumes "binary_conversions df"
    and "rows_of ''control'' df \<noteq> []" and "rows_of ''variant'' df \<noteq> []"
    and "0 < spec_se (conversions (rows_of ''control'' df)) (conversions (rows_of ''variant'' df))
               (length (rows_of ''control'' df)) (length (rows_of ''variant'' df))"
  shows "bound_proportions_ztest bk L
           (conversions (rows_of ''variant'' df), conversions (rows_of ''control'' df))
           (int (length (rows_of ''variant'' df)), int (length (rows_of ''control'' df)))
         = (Fin (spec_z (conversions (rows_of ''control'' df)) (conversions (rows_of ''variant'' df))
                   (length (rows_of ''control'' df)) (length (rows_of ''variant'' df))),
            Fin (spec_p_value (norm_cdf L)
                   (spec_z (conversions (rows_of ''control'' df)) (conversions (rows_of ''variant'' df))
                      (length (rows_of ''control'' df)) (length (rows_of ''variant'' df)))))"
proof (cases bk)
  case Fallback
  then show ?thesis
    using ztest_on_partitions[OF assms(1,2,3), of L] by (simp add: bound_proportions_ztest_def)
next
  case (Statsmodels S)
  have c: "0 \<le> conversions (rows_of ''control'' df)"
      "conversions (rows_of ''control'' df) \<le> int (length (rows_of ''control'' df))"
    using conversions_bounds[OF binary_rows_of[OF assms(1)]] by auto
  have v: "0 \<le> conversions (rows_of ''variant'' df)"
      "conversions (rows_of ''variant'' df) \<le> int (length (rows_of ''variant'' df))"
    using conversions_bounds[OF binary_rows_of[OF assms(1)]] by auto
  have n: "0 < length (rows_of ''control'' df)" "0 < length (rows_of ''variant'' df)"
    using assms(2,3) by auto
  show ?thesis
    using statsmodels_proportions_ztest_spec[OF c v n assms(4), of L] Statsmodels
    by (simp add: bound_proportions_ztest_def)
qed

lemma two_proportion_ztest_formula:
  fixes L :: stats_lib and df :: dataset and a :: real
  assumes "binary_conversions df"
    and "rows_of ''control'' df \<noteq> []" and "rows_of ''variant'' df \<noteq> []"
  defines "conv_c \<equiv> conversions (rows_of ''control'' df)"
    and "conv_v \<equiv> conversions (rows_of ''variant'' df)"
    and "n_c \<equiv> length (rows_of ''control'' df)"
    and "n_v \<equiv> length (rows_of ''variant'' df)"
  defines "z \<equiv> spec_z conv_c conv_v n_c n_v"
  defines "p \<equiv> spec_p_value (norm_cdf L) z"
  assumes "bk = Fallback \<or> 0 < spec_se conv_c conv_v n_c n_v"
  shows "bound_proportions_ztest bk L (conv_v, conv_c) (int n_v, int n_c) = (Fin z, Fin p)
       \<and> statistic (two_proportion_ztest bk L df a) = Fin (round_to 4 z)
       \<and> p_value (two_proportion_ztest bk L df a) = Fin (round_to 6 p)
       \<and> significant (two_proportion_ztest bk L df a) = (p < a)"
proof -
  have zt: "bound_proportions_ztest bk L (conv_v, conv_c) (int n_v, int n_c) = (Fin z, Fin p)"
    using assms(10)
  proof
    assume "bk = Fallback"
    then show ?thesis
      unfolding conv_c_def conv_v_def n_c_def n_v_def z_def p_def
      using ztest_on_partitions[OF assms(1,2,3), of L] by (simp add: bound_proportions_ztest_def)
  next
    assume "0 < spec_se conv_c conv_v n_c n_v"
    then show ?thesis
      unfolding conv_c_def conv_v_def n_c_def n_v_def z_def p_def
      by (rule bound_ztest_on_partitions[OF assms(1,2,3)])
  qed
  have zt': "bound_proportions_ztest bk L
           (conversions (rows_of ''variant'' df), conversions (rows_of ''control'' df))
           (int (length (rows_of ''variant'' df)), int (length (rows_of ''control'' df)))
         = (Fin z, Fin p)"
    using zt by (simp only: conv_c_def conv_v_def n_c_def n_v_def)
  show ?thesis
    using zt by (simp add: two_proportion_ztest_def Let_def zt')
qed

lemma no_conversion_rows:
  "rows_of ''control'' no_conversion_df = [obs ''control'' 0 1 2, obs ''control'' 0 3 4]"
  "rows_of ''variant'' no_conversion_df = [obs ''variant'' 0 2 2, obs ''variant'' 0 6 6]"
  by (simp_all add: no_conversion_df_def rows_of_def obs_def)

lemma no_conversion_counts:
  "conversions (rows_of ''control'' no_conversion_df) = 0"
  "conversions (rows_of ''variant'' no_conversion_df) = 0"
  "int (length (rows_of ''control'' no_conversion_df)) = 2"
  "int (length (rows_of ''variant'' no_conversion_df)) = 2"
  by (simp_all add: no_conversion_rows conversions_def obs_def)

lemma zero_se_ztests:
  "statsmodels_proportions_ztest L (0, 0) (2, 2) = (NaN, NaN)"
  "proportions_ztest L (0, 0) (2, 2) = (Fin 0, Fin (2 * (1 - norm_cdf L 0)))"
  by (simp_all add: statsmodels_proportions_ztest_def proportions_ztest_def Let_def fsub_def
      fgt_def of_sign_def)

text \<open>
  Claim C1, at its failing input. In the dataset of two control and two variant users
  of whom nobody converts, the pooled proportion and the standard error are 0. The
  module's own \<open>proportions_ztest\<close> has the guard and returns \<open>z = 0\<close>, \<open>p = 2 (1 - Phi 0)\<close>,
  as the specification says. The library's function, which line 59 calls whenever
  \<open>statsmodels\<close> is installed, divides \<open>0 / 0\<close>: the statistic and the p-value are NaN and
  the result is not significant.
\<close>

theorem ztest_zero_standard_error:
  "binary_conversions no_conversion_df
   \<and> length (rows_of ''control'' no_conversion_df) = 2
   \<and> length (rows_of ''variant'' no_conversion_df) = 2
   \<and> spec_se 0 0 2 2 = 0 \<and> spec_z 0 0 2 2 = 0
   \<and> statistic (two_proportion_ztest (Statsmodels S) L no_conversion_df a) = NaN
   \<and> p_value (two_proportion_ztest (Statsmodels S) L no_conversion_df a) = NaN
   \<and> \<not> significant (two_proportion_ztest (Statsmodels S) L no_conversion_df a)
   \<and> statistic (two_proportion_ztest Fallback L no_conversion_df a) = Fin 0
   \<and> p_value (two_proportion_ztest Fallback L no_conversion_df a)
       = Fin (round_to 6 (2 * (1 - norm_cdf L 0)))"
proof -
  have b: "binary_conversions no_conversion_df"
    by (simp add: no_conversion_df_def binary_conversions_def obs_def)
  have l: "length (rows_of ''control'' no_conversion_df) = 2"
      "length (rows_of ''variant'' no_conversion_df) = 2"
    by (simp_all add: no_conversion_rows)
  have se: "spec_se 0 0 2 2 = 0" by (simp add: spec_se_def spec_p_pool_def)
  have z: "spec_z 0 0 2 2 = 0" by (simp add: spec_z_def se)
  have r: "round_to 4 0 = 0" using round_to_int[of 4 0] by simp
  have s: "statistic (two_proportion_ztest (Statsmodels S) L no_conversion_df a) = NaN
      \<and> p_value (two_proportion_ztest (Statsmodels S) L no_conversion_df a) = NaN
      \<and> \<not> significant (two_proportion_ztest (Statsmodels S) L no_conversion_df a)"
    unfolding two_proportion_ztest_def Let_def no_conversion_counts
    by (simp add: bound_proportions_ztest_def zero_se_ztests)
  have f: "statistic (two_proportion_ztest Fallback L no_conversion_df a) = Fin 0
      \<and> p_value (two_proportion_ztest Fallback L no_conversion_df a)
          = Fin (round_to 6 (2 * (1 - norm_cdf L 0)))"
    unfolding two_proportion_ztest_def Let_def no_conversion_counts
    by (simp add: bound_proportions_ztest_def zero_se_ztests r)
  show ?thesis using b l se z s f by blast
qed

section \<open>Confidence intervals\<close>


























section \<open>The recommendation\<close>

lemma sum_bools_count:
  "sum_bools [c, t, k] = int (count_significant c t k)"
  by (simp add: sum_bools_def count_significant_def)

text \<open>
  Claim C3. For all test results and every power output, the label that
  \<open>generate_business_insights\<close> returns is the one the four rules of the specification
  give when tried in order (at least 2 significant metrics with a significant conversion
  test and a positive uplift: ROLLOUT; else a significant conversion test and an uplift
  above 5: ROLLOUT; else exactly 1 significant metric and a conversion test that is not
  significant: DO NOT ROLLOUT; else MONITOR), and the output carries the number of
  significant metrics and \<open>total_metrics_tested = 3\<close>.
\<close>

theorem recommendation_rule:
  fixes metrics :: metrics_summary and tests :: all_tests and pw :: power_output
  defines "conv_sig \<equiv> significant (conversion_rate_test tests)"
    and "time_sig \<equiv> significant (time_spent_test tests)"
    and "clicks_sig \<equiv> significant (clicks_test tests)"
  defines "n \<equiv> count_significant conv_sig time_sig clicks_sig"
  shows "recommendation (generate_business_insights metrics tests pw)
           = spec_recommendation n conv_sig (conversion_uplift_pct pw)
       \<and> significant_metrics (generate_business_insights metrics tests pw) = int n
       \<and> total_metrics_tested (generate_business_insights metrics tests pw) = 3"
  unfolding n_def conv_sig_def time_sig_def clicks_sig_def
  by (cases "significant (conversion_rate_test tests)";
      cases "significant (time_spent_test tests)";
      cases "significant (clicks_test tests)";
      simp add: generate_business_insights_def Let_def spec_recommendation_def
        sum_bools_def count_significant_def)

section \<open>Required sample size\<close>

lemma effect_size_same: "\<not> fgt (effect_size_proportions p p) (Fin 0)"
proof (cases "farcsin (fsqrt p)")
  case (Fin x)
  then show ?thesis by (simp add: effect_size_proportions_def fsub_def fgt_def)
qed (simp_all add: effect_size_proportions_def fsub_def fgt_def of_sign_def)

lemma cohens_d_same_mean: "\<not> fgt (cohens_d m m s1 s2) (Fin 0)"
proof -
  have z: "\<And>r. \<not> fgt (fdiv (fabs (fsub m m)) r) (Fin 0)"
  proof -
    fix r
    show "\<not> fgt (fdiv (fabs (fsub m m)) r) (Fin 0)"
      by (cases m; cases r) (simp_all add: fsub_def fgt_def of_sign_def)
  qed
  show ?thesis
    unfolding cohens_d_def Let_def using z by (simp add: fgt_def)
qed

text \<open>
  What the two solvers do: an effect size that is not positive gives infinity; a
  positive one gives the closed form, whose ceiling the result functions store, and
  that ceiling is not negative.
\<close>

lemma required_sample_size_positive_effect:
  assumes "stats_norm_ppf L (1 - a / 2) = Fin za" and "stats_norm_ppf L pw = Fin zb" and "0 < e"
  shows "py_int (fceil (normal_solve_power L (Fin e) a pw)) = Inr \<lceil>((za + zb) / e)\<^sup>2\<rceil>"
    and "py_int (fceil (ttest_solve_power L (Fin e) a pw)) = Inr \<lceil>2 * ((za + zb) / e)\<^sup>2\<rceil>"
    and "0 \<le> \<lceil>((za + zb) / e)\<^sup>2\<rceil>" and "0 \<le> \<lceil>2 * ((za + zb) / e)\<^sup>2\<rceil>"
proof -
  show "py_int (fceil (normal_solve_power L (Fin e) a pw)) = Inr \<lceil>((za + zb) / e)\<^sup>2\<rceil>"
    unfolding normal_solve_power_pos[OF assms] by (rule py_int_fceil_fin)
  show "py_int (fceil (ttest_solve_power L (Fin e) a pw)) = Inr \<lceil>2 * ((za + zb) / e)\<^sup>2\<rceil>"
    unfolding ttest_solve_power_pos[OF assms] by (rule py_int_fceil_fin)
  have "(0::real) \<le> ((za + zb) / e)\<^sup>2" by simp
  then show "0 \<le> \<lceil>((za + zb) / e)\<^sup>2\<rceil>" by linarith
  have "(0::real) \<le> 2 * ((za + zb) / e)\<^sup>2" by simp
  then show "0 \<le> \<lceil>2 * ((za + zb) / e)\<^sup>2\<rceil>" by linarith
qed

lemma effect_size_equal_rates:
  "effect_size_proportions (Fin (12 / 100)) (Fin (12 / 100)) = Fin 0"
proof -
  have "(0::real) \<le> sqrt (12 / 100)" by simp
  then have l: "- 1 \<le> sqrt (12 / 100 :: real)" by linarith
  have u: "sqrt (12 / 100 :: real) \<le> 1" by simp
  have r: "farcsin (fsqrt (Fin (12 / 100))) = Fin (arcsin (sqrt (12 / 100)))"
    using l u by simp
  show ?thesis unfolding effect_size_proportions_def r by (simp add: fsub_def)
qed

lemma cohens_d_equal_means: "cohens_d (Fin 5) (Fin 5) (Fin 1) (Fin 1) = Fin 0"
  by (simp add: cohens_d_def Let_def fsquare_def fsub_def fgt_def)

text \<open>
  Claim C4, at its failing input. With equal conversion rates (here 12 percent in both
  groups, for any \<open>alpha\<close> and power) the effect size is 0 and \<open>power_analysis_conversion\<close>
  does not return, whichever solver is bound. The module's own solver returns infinity
  and \<open>int(np.ceil(required_n))\<close> raises \<open>OverflowError\<close>; the solver of statsmodels
  raises \<open>ValueError\<close> itself. The same happens in \<open>power_analysis_ttest\<close> with equal
  means.
\<close>

theorem power_analysis_zero_effect_raises:
  "effect_size_proportions (Fin (12 / 100)) (Fin (12 / 100)) = Fin 0
   \<and> normal_solve_power L (effect_size_proportions (Fin (12 / 100)) (Fin (12 / 100))) a pw = PInf
   \<and> power_analysis_conversion Fallback L (Fin (12 / 100)) (Fin (12 / 100)) a pw
       = Inl OverflowError
   \<and> power_analysis_ttest Fallback L (Fin 5) (Fin 5) (Fin 1) (Fin 1) ''time_spent'' a pw
       = Inl OverflowError
   \<and> power_analysis_conversion (Statsmodels S) L (Fin (12 / 100)) (Fin (12 / 100)) a pw
       = Inl ValueError
   \<and> power_analysis_ttest (Statsmodels S) L (Fin 5) (Fin 5) (Fin 1) (Fin 1) ''time_spent'' a pw
       = Inl ValueError"
proof -
  have n: "normal_solve_power L (effect_size_proportions (Fin (12 / 100)) (Fin (12 / 100))) a pw = PInf"
    by (rule solve_power_not_pos(1)[OF effect_size_same])
  have t: "ttest_solve_power L (cohens_d (Fin 5) (Fin 5) (Fin 1) (Fin 1)) a pw = PInf"
    by (rule solve_power_not_pos(2)[OF cohens_d_same_mean])
  have fc: "power_analysis_conversion Fallback L (Fin (12 / 100)) (Fin (12 / 100)) a pw
       = Inl OverflowError"
    using n by (simp add: power_analysis_conversion_def bound_normal_solve_power_def Let_def)
  have ft: "power_analysis_ttest Fallback L (Fin 5) (Fin 5) (Fin 1) (Fin 1) ''time_spent'' a pw
       = Inl OverflowError"
    using t by (simp add: power_analysis_ttest_def bound_ttest_solve_power_def Let_def)
  have sc: "power_analysis_conversion (Statsmodels S) L (Fin (12 / 100)) (Fin (12 / 100)) a pw
       = Inl ValueError"
    unfolding power_analysis_conversion_def Let_def effect_size_equal_rates
    by (simp add: bound_normal_solve_power_def statsmodels_solve_power_def)
  have st: "power_analysis_ttest (Statsmodels S) L (Fin 5) (Fin 5) (Fin 1) (Fin 1) ''time_spent'' a pw
       = Inl ValueError"
    unfolding power_analysis_ttest_def Let_def cohens_d_equal_means
    by (simp add: bound_ttest_solve_power_def statsmodels_solve_power_def)
  show ?thesis using effect_size_equal_rates n fc ft sc st by blast
qed

section \<open>The metrics summary on an empty partition\<close>

lemma fsub_NaN [simp]: "fsub NaN x = NaN" "fsub x NaN = NaN"
  by (cases x; simp add: fsub_def)+

lemma group_summary_empty:
  "group_summary [] =
     \<lparr> n_users = 0, conversion_rate = NaN, avg_time_spent = NaN, avg_clicks = NaN,
       avg_session_count = NaN, total_conversions = 0 \<rparr>"
  by (simp add: group_summary_def conversion_mean_def col_mean_def series_mean_def conversions_def)

lemma differences_empty:
  assumes "rows_of ''control'' df = [] \<or> rows_of ''variant'' df = []"
  shows "differences_of (compute_metrics_summary df)
           = \<lparr> conversion_rate_diff = NaN, time_spent_diff = NaN, clicks_diff = NaN \<rparr>"
  using assms
  by (auto simp: compute_metrics_summary_def Let_def conversion_mean_def col_mean_def
      series_mean_def)

text \<open>
  Claim C5, as the code has it. \<open>compute_metrics_summary\<close> raises nothing. On a dataset
  whose control or variant partition is empty it returns the summary in which the three
  differences are NaN and the empty partition has \<open>n_users = 0\<close>, \<open>total_conversions = 0\<close>
  and NaN for its conversion rate and its three averages.
\<close>

theorem metrics_summary_empty_partition:
  assumes "rows_of ''control'' df = [] \<or> rows_of ''variant'' df = []"
  shows "differences_of (compute_metrics_summary df)
           = \<lparr> conversion_rate_diff = NaN, time_spent_diff = NaN, clicks_diff = NaN \<rparr>
       \<and> (if rows_of ''control'' df = []
          then control_stats (compute_metrics_summary df) = group_summary []
             \<and> is_nan (conversion_rate (control_stats (compute_metrics_summary df)))
          else variant_stats (compute_metrics_summary df) = group_summary []
             \<and> is_nan (conversion_rate (variant_stats (compute_metrics_summary df))))"
  using assms differences_empty[OF assms]
  by (auto simp: compute_metrics_summary_def Let_def group_summary_empty)

theorem metrics_summary_empty_partition_witness:
  "(rows_of ''control'' variant_only_df = [] \<or> rows_of ''variant'' variant_only_df = [])
   \<and> differences_of (compute_metrics_summary variant_only_df)
       = \<lparr> conversion_rate_diff = NaN, time_spent_diff = NaN, clicks_diff = NaN \<rparr>
   \<and> control_stats (compute_metrics_summary variant_only_df)
       = \<lparr> n_users = 0, conversion_rate = NaN, avg_time_spent = NaN, avg_clicks = NaN,
           avg_session_count = NaN, total_conversions = 0 \<rparr>"
proof -
  have e: "rows_of ''control'' variant_only_df = []"
    by (simp add: variant_only_df_def rows_of_def obs_def)
  show ?thesis
    using metrics_summary_empty_partition[of variant_only_df] e
    by (simp add: group_summary_empty)
qed

text \<open>
  The claim as stated fails: on the dataset with two variant rows and no control row
  the computation returns (it has no error to signal), and what it returns holds NaN
  aggregates.
\<close>

theorem metrics_summary_returns_nan:
  "rows_of ''control'' variant_only_df = []
   \<and> n_users (variant_stats (compute_metrics_summary variant_only_df)) = 2
   \<and> is_nan (conversion_rate (control_stats (compute_metrics_summary variant_only_df)))
   \<and> is_nan (avg_time_spent (control_stats (compute_metrics_summary variant_only_df)))
   \<and> is_nan (conversion_rate_diff (differences_of (compute_metrics_summary variant_only_df)))"
  by (simp add: variant_only_df_def rows_of_def obs_def compute_metrics_summary_def Let_def
      group_summary_def conversion_mean_def col_mean_def series_mean_def)

section \<open>The uplift at a control rate of 0\<close>

lemma conversion_uplift_zero_control: "conversion_uplift (Fin 0) p = Fin 0"
  by (simp add: conversion_uplift_def fgt_def)

text \<open>
  Claim C6, at its failing input. In the first example nobody converts in control, so
  the control rate is 0. \<open>conversion_uplift\<close> has the guard and returns 0;
  \<open>two_proportion_ztest\<close> divides by the rate without it, and the uplift in its
  interpretation is infinite.
\<close>

theorem ztest_uplift_zero_control_rate:
  "conversions (rows_of ''control'' example_df) = 0
   \<and> conversion_uplift (Fin 0) (Fin 1) = Fin 0
   \<and> ztest_uplift example_df = PInf
   \<and> interpretation_of (two_proportion_ztest bk L example_df a)
       = Conversion_text (Fin 0) (Fin 1) PInf (significant (two_proportion_ztest bk L example_df a))"
proof -
  have cc: "conversions (rows_of ''control'' example_df) = 0"
    by (simp add: example_control conversions_def obs_def)
  have cv: "conversions (rows_of ''variant'' example_df) = 2"
    by (simp add: example_variant conversions_def obs_def)
  have u: "ztest_uplift example_df = PInf"
    unfolding ztest_uplift_def Let_def cc cv
    by (simp add: example_control example_variant fsub_def of_sign_def)
  show ?thesis
    using cc u conversion_uplift_zero_control[of "Fin 1"]
    by (simp add: two_proportion_ztest_def Let_def example_control example_variant
        conversions_def obs_def split: prod.splits)
qed

section \<open>Effect sizes\<close>

lemma cohens_d_real:
  "cohens_d (Fin m1) (Fin m2) (Fin s1) (Fin s2) = Fin (spec_cohens_d m1 m2 s1 s2)"
proof -
  let ?q = "(s1\<^sup>2 + s2\<^sup>2) / 2"
  have q: "0 \<le> ?q" by simp
  have a: "fdiv (fadd (fsquare (Fin s1)) (fsquare (Fin s2))) (Fin 2) = Fin ?q"
    by (simp add: fsquare_def power2_eq_square)
  have b: "fsqrt (Fin ?q) = Fin (sqrt ?q)"
    using q by (simp add: not_less del: zero_le_power2)
  define r where "r = sqrt ?q"
  have s: "0 \<le> r" unfolding r_def using q by (simp del: zero_le_power2)
  have "(if fgt (Fin r) (Fin 0) then fdiv (fabs (fsub (Fin m2) (Fin m1))) (Fin r) else Fin 0)
        = Fin (if r = 0 then 0 else \<bar>m2 - m1\<bar> / r)"
    using s by (auto simp: fgt_def fsub_def)
  then show ?thesis
    unfolding cohens_d_def a b Let_def spec_cohens_d_def r_def .
qed

lemma spec_cohens_d_nonneg: "0 \<le> spec_cohens_d m1 m2 s1 s2"
  by (simp add: spec_cohens_d_def Let_def)

lemma arcsin_sqrt_range:
  assumes "0 \<le> p" "p \<le> 1"
  shows "0 \<le> arcsin (sqrt p)" "arcsin (sqrt p) \<le> pi / 2"
proof -
  have r: "0 \<le> sqrt p" "sqrt p \<le> 1" using assms by simp_all
  show "0 \<le> arcsin (sqrt p)" using r by (intro arcsin_nonneg) simp
  have "- 1 \<le> sqrt p" using r by linarith
  then show "arcsin (sqrt p) \<le> pi / 2" using r by (intro arcsin_ubound)
qed

lemma effect_size_proportions_real:
  assumes "0 \<le> p1" "p1 \<le> 1" "0 \<le> p2" "p2 \<le> 1"
  shows "effect_size_proportions (Fin p1) (Fin p2) = Fin (spec_cohens_h p1 p2)"
proof -
  have r: "0 \<le> sqrt p1" "sqrt p1 \<le> 1" "0 \<le> sqrt p2" "sqrt p2 \<le> 1"
    using assms by simp_all
  have r': "- 1 \<le> sqrt p1" "- 1 \<le> sqrt p2" using r by linarith+
  have s: "fsqrt (Fin p1) = Fin (sqrt p1)" "fsqrt (Fin p2) = Fin (sqrt p2)"
    using assms by (simp_all add: not_less)
  have a: "farcsin (Fin (sqrt p1)) = Fin (arcsin (sqrt p1))"
      "farcsin (Fin (sqrt p2)) = Fin (arcsin (sqrt p2))"
    using r r' by simp_all
  show ?thesis
    unfolding effect_size_proportions_def s a
    by (simp add: fsub_def spec_cohens_h_def)
qed

lemma spec_cohens_h_range:
  assumes "0 \<le> p1" "p1 \<le> 1" "0 \<le> p2" "p2 \<le> 1"
  shows "0 \<le> spec_cohens_h p1 p2 \<and> spec_cohens_h p1 p2 \<le> pi"
  using arcsin_sqrt_range[OF assms(1,2)] arcsin_sqrt_range[OF assms(3,4)]
  by (simp add: spec_cohens_h_def abs_le_iff)

text \<open>
  Claim C7. For all real means and non-negative standard deviations \<open>cohens_d\<close> returns
  \<open>\<bar>mean2 - mean1\<bar> / sqrt ((std1\<^sup>2 + std2\<^sup>2) / 2)\<close>, which is at least 0, and returns 0 when
  the pooled standard deviation is 0; for all proportions in \<open>[0, 1]\<close>
  \<open>effect_size_proportions\<close> returns \<open>\<bar>2 arcsin (sqrt p2) - 2 arcsin (sqrt p1)\<bar>\<close>, which lies
  in \<open>[0, pi]\<close>.
\<close>

theorem effect_sizes_in_range:
  assumes "0 \<le> std1" "0 \<le> std2" "0 \<le> p1" "p1 \<le> 1" "0 \<le> p2" "p2 \<le> 1"
  shows "cohens_d (Fin mean1) (Fin mean2) (Fin std1) (Fin std2)
           = Fin (spec_cohens_d mean1 mean2 std1 std2)
       \<and> 0 \<le> spec_cohens_d mean1 mean2 std1 std2
       \<and> (if sqrt ((std1\<^sup>2 + std2\<^sup>2) / 2) = 0
          then cohens_d (Fin mean1) (Fin mean2) (Fin std1) (Fin std2) = Fin 0
          else cohens_d (Fin mean1) (Fin mean2) (Fin std1) (Fin std2)
                 = Fin (\<bar>mean2 - mean1\<bar> / sqrt ((std1\<^sup>2 + std2\<^sup>2) / 2)))
       \<and> effect_size_proportions (Fin p1) (Fin p2) = Fin (spec_cohens_h p1 p2)
       \<and> 0 \<le> spec_cohens_h p1 p2 \<and> spec_cohens_h p1 p2 \<le> pi"
proof -
  have d: "cohens_d (Fin mean1) (Fin mean2) (Fin std1) (Fin std2)
           = Fin (spec_cohens_d mean1 mean2 std1 std2)"
    by (rule cohens_d_real)
  have c: "(if sqrt ((std1\<^sup>2 + std2\<^sup>2) / 2) = 0
          then cohens_d (Fin mean1) (Fin mean2) (Fin std1) (Fin std2) = Fin 0
          else cohens_d (Fin mean1) (Fin mean2) (Fin std1) (Fin std2)
                 = Fin (\<bar>mean2 - mean1\<bar> / sqrt ((std1\<^sup>2 + std2\<^sup>2) / 2)))"
    unfolding d by (simp add: spec_cohens_d_def Let_def)
  show ?thesis
    using d c spec_cohens_d_nonneg[of mean1 mean2 std1 std2]
      effect_size_proportions_real[OF assms(3,4,5,6)] spec_cohens_h_range[OF assms(3,4,5,6)]
    by blast
qed

theorem effect_sizes_in_range_witness:
  "(0::real) \<le> 3 \<and> (0::real) \<le> 4 \<and> (0::real) \<le> 0 \<and> (0::real) \<le> 1
   \<and> cohens_d (Fin 1) (Fin 6) (Fin 3) (Fin 4) = Fin (5 / sqrt (25 / 2))
   \<and> cohens_d (Fin 1) (Fin 6) (Fin 0) (Fin 0) = Fin 0
   \<and> effect_size_proportions (Fin 0) (Fin 1) = Fin pi"
proof -
  have a: "cohens_d (Fin 1) (Fin 6) (Fin 3) (Fin 4) = Fin (5 / sqrt (25 / 2))"
    using effect_sizes_in_range[of 3 4 0 1 1 6] by (simp add: spec_cohens_d_def)
  have b: "cohens_d (Fin 1) (Fin 6) (Fin 0) (Fin 0) = Fin 0"
    using effect_sizes_in_range[of 0 0 0 1 1 6] by (simp add: spec_cohens_d_def)
  have c: "effect_size_proportions (Fin 0) (Fin 1) = Fin pi"
    using effect_sizes_in_range[of 3 4 0 1 1 6] by (simp add: spec_cohens_h_def)
  show ?thesis using a b c by simp
qed

section \<open>Rows of other groups\<close>

lemma rows_of_valid_rows:
  "rows_of ''control'' (valid_rows df) = rows_of ''control'' df"
  "rows_of ''variant'' (valid_rows df) = rows_of ''variant'' df"
  by (induction df) (auto simp: rows_of_def valid_rows_def)

text \<open>
  Claim C8. The metrics summary, the three hypothesis tests, the three confidence
  intervals and the power analysis of a dataset are those of the dataset restricted to
  the rows labelled \<open>control\<close> or \<open>variant\<close>: the other rows change no result and add no
  error (the intervals and the power analysis raise on a dataset exactly when they raise
  on the restricted one), whichever of statsmodels and the module's own replacements is
  bound.
\<close>

theorem unknown_groups_ignored:
  "compute_metrics_summary df = compute_metrics_summary (valid_rows df)
   \<and> run_all_tests bk L df a = run_all_tests bk L (valid_rows df) a
   \<and> compute_all_cis L df c = compute_all_cis L (valid_rows df) c
   \<and> run_power_analysis bk L df a = run_power_analysis bk L (valid_rows df) a"
proof -
  have m: "compute_metrics_summary df = compute_metrics_summary (valid_rows df)"
    by (simp only: compute_metrics_summary_def rows_of_valid_rows)
  have u: "ztest_uplift df = ztest_uplift (valid_rows df)"
    by (simp only: ztest_uplift_def rows_of_valid_rows)
  have z: "two_proportion_ztest bk L df a = two_proportion_ztest bk L (valid_rows df) a"
    by (simp only: two_proportion_ztest_def rows_of_valid_rows u)
  have t: "\<And>m. independent_ttest L df m a = independent_ttest L (valid_rows df) m a"
    by (simp only: independent_ttest_def rows_of_valid_rows)
  have cp: "ci_difference_proportions L df c = ci_difference_proportions L (valid_rows df) c"
    by (simp only: ci_difference_proportions_def rows_of_valid_rows)
  have cm: "\<And>m. ci_difference_means L df m c = ci_difference_means L (valid_rows df) m c"
    by (simp only: ci_difference_means_def rows_of_valid_rows)
  have p: "run_power_analysis bk L df a = run_power_analysis bk L (valid_rows df) a"
    by (simp only: run_power_analysis_def rows_of_valid_rows)
  have r: "run_all_tests bk L df a = run_all_tests bk L (valid_rows df) a"
    unfolding run_all_tests_def z t by (rule refl)
  have ci: "compute_all_cis L df c = compute_all_cis L (valid_rows df) c"
    unfolding compute_all_cis_def cp cm by (rule refl)
  show ?thesis using m r ci p by blast
qed

theorem unknown_groups_ignored_witness:
  "valid_rows mislabelled_df = example_df
   \<and> length mislabelled_df = 5 \<and> length example_df = 4
   \<and> compute_metrics_summary mislabelled_df = compute_metrics_summary example_df
   \<and> run_all_tests (Statsmodels example_statsmodels) example_lib mislabelled_df (5 / 100)
       = run_all_tests (Statsmodels example_statsmodels) example_lib example_df (5 / 100)
   \<and> compute_all_cis example_lib mislabelled_df (95 / 100)
       = compute_all_cis example_lib example_df (95 / 100)
   \<and> run_power_analysis (Statsmodels example_statsmodels) example_lib mislabelled_df (5 / 100)
       = run_power_analysis (Statsmodels example_statsmodels) example_lib example_df (5 / 100)"
proof -
  have v: "valid_rows mislabelled_df = example_df"
    by (simp add: mislabelled_df_def example_df_def valid_rows_def obs_def)
  have l: "length mislabelled_df = 5" "length example_df = 4"
    by (simp_all add: mislabelled_df_def example_df_def)
  show ?thesis
    using unknown_groups_ignored[of mislabelled_df "Statsmodels example_statsmodels" example_lib
        "5 / 100" "95 / 100"] l
    unfolding v by simp
qed

section \<open>A run of the power analysis that returns\<close>

lemma uneven_control: "rows_of ''control'' uneven_df = [obs ''control'' 0 1 2, obs ''control'' 0 3 4]"
  by (simp add: uneven_df_def rows_of_def obs_def)

lemma uneven_variant:
  "rows_of ''variant'' uneven_df = [obs ''variant'' 1 2 3, obs ''variant'' 1 6 5, obs ''variant'' 1 7 7]"
  by (simp add: uneven_df_def rows_of_def obs_def)

lemma series_std_fin:
  assumes "1 < length xs"
  shows "series_std xs = Fin (sqrt (sample_var xs))"
proof -
  have "0 \<le> (\<Sum>x\<leftarrow>xs. (x - sum_list xs / real (length xs))\<^sup>2)"
    by (rule sum_list_nonneg) auto
  moreover have "0 < real (length xs) - 1" using assms by simp
  ultimately have "0 \<le> sample_var xs" by (simp add: sample_var_def Let_def)
  then show ?thesis using assms by (simp add: series_std_def series_var_def not_less)
qed

lemma uneven_time_mean_c: "col_mean time_spent (rows_of ''control'' uneven_df) = Fin 2"
  by (simp add: uneven_control col_mean_def obs_def series_mean_def)
lemma uneven_time_mean_v: "col_mean time_spent (rows_of ''variant'' uneven_df) = Fin 5"
  by (simp add: uneven_variant col_mean_def obs_def series_mean_def)
lemma uneven_time_std_c: "col_std time_spent (rows_of ''control'' uneven_df) = Fin (sqrt 2)"
  by (simp add: uneven_control col_std_def obs_def series_std_fin sample_var_def)
lemma uneven_time_std_v: "col_std time_spent (rows_of ''variant'' uneven_df) = Fin (sqrt 7)"
  by (simp add: uneven_variant col_std_def obs_def series_std_fin sample_var_def)

lemma power_analysis_conversion_ok:
  assumes "stats_norm_ppf L (1 - a / 2) = Fin za" and "stats_norm_ppf L pw = Fin zb"
    and "0 \<le> p1" "p1 \<le> 1" "0 \<le> p2" "p2 \<le> 1" and "0 < spec_cohens_h p1 p2"
  shows "\<exists>r. power_analysis_conversion Fallback L (Fin p1) (Fin p2) a pw = Inr r"
  unfolding power_analysis_conversion_def Let_def bound_normal_solve_power_def
    effect_size_proportions_real[OF assms(3,4,5,6)]
    normal_solve_power_pos[OF assms(1,2,7)] py_int_fceil_fin
  by simp

lemma power_analysis_conversion_statsmodels_ok:
  assumes "0 \<le> p1" "p1 \<le> 1" "0 \<le> p2" "p2 \<le> 1" and "0 < spec_cohens_h p1 p2"
  shows "\<exists>r. power_analysis_conversion (Statsmodels example_statsmodels) L (Fin p1) (Fin p2) a pw
           = Inr r"
  unfolding power_analysis_conversion_def Let_def effect_size_proportions_real[OF assms(1,2,3,4)]
  using assms(5)
  by (simp add: bound_normal_solve_power_def statsmodels_solve_power_def example_statsmodels_def
      fsquare_def)

lemma power_analysis_ttest_ok:
  assumes "stats_norm_ppf L (1 - a / 2) = Fin za" and "stats_norm_ppf L pw = Fin zb"
    and "0 < spec_cohens_d m1 m2 s1 s2"
  shows "\<exists>r. power_analysis_ttest Fallback L (Fin m1) (Fin m2) (Fin s1) (Fin s2) name a pw = Inr r"
  unfolding power_analysis_ttest_def Let_def bound_ttest_solve_power_def cohens_d_real
    ttest_solve_power_pos[OF assms(1,2,3)] py_int_fceil_fin
  by simp

lemma power_analysis_ttest_statsmodels_ok:
  assumes "0 < spec_cohens_d m1 m2 s1 s2"
  shows "\<exists>r. power_analysis_ttest (Statsmodels example_statsmodels) L
           (Fin m1) (Fin m2) (Fin s1) (Fin s2) name a pw = Inr r"
  unfolding power_analysis_ttest_def Let_def cohens_d_real
  using assms
  by (simp add: bound_ttest_solve_power_def statsmodels_solve_power_def example_statsmodels_def
      fsquare_def)

lemma uneven_clicks_mean_c: "col_mean clicks (rows_of ''control'' uneven_df) = Fin 3"
  by (simp add: uneven_control col_mean_def obs_def series_mean_def)
lemma uneven_clicks_mean_v: "col_mean clicks (rows_of ''variant'' uneven_df) = Fin 5"
  by (simp add: uneven_variant col_mean_def obs_def series_mean_def)
lemma uneven_clicks_std_c: "col_std clicks (rows_of ''control'' uneven_df) = Fin (sqrt 2)"
  by (simp add: uneven_control col_std_def obs_def series_std_fin sample_var_def)
lemma uneven_clicks_std_v: "col_std clicks (rows_of ''variant'' uneven_df) = Fin (sqrt 4)"
  by (simp add: uneven_variant col_std_def obs_def series_std_fin sample_var_def)
lemma uneven_rate_c: "conversion_mean (rows_of ''control'' uneven_df) = Fin 0"
  by (simp add: uneven_control conversion_mean_def obs_def series_mean_def)
lemma uneven_rate_v: "conversion_mean (rows_of ''variant'' uneven_df) = Fin 1"
  by (simp add: uneven_variant conversion_mean_def obs_def series_mean_def)

lemma uneven_runs: "\<exists>out. run_power_analysis Fallback example_lib uneven_df (5 / 100) = Inr out"
proof -
  note q = example_lib_quantiles
  obtain r1 where r1: "power_analysis_conversion Fallback example_lib (Fin 0) (Fin 1) (5 / 100)
        default_power = Inr r1"
    using power_analysis_conversion_ok[OF q, of 0 1] by (auto simp: spec_cohens_h_def)
  obtain r2 where r2: "power_analysis_ttest Fallback example_lib (Fin 2) (Fin 5) (Fin (sqrt 2))
        (Fin (sqrt 7)) ''time_spent'' (5 / 100) default_power = Inr r2"
    using power_analysis_ttest_ok[OF q, of 2 5 "sqrt 2" "sqrt 7"] by (auto simp: spec_cohens_d_def)
  obtain r3 where r3: "power_analysis_ttest Fallback example_lib (Fin 3) (Fin 5) (Fin (sqrt 2))
        (Fin (sqrt 4)) ''clicks'' (5 / 100) default_power = Inr r3"
    using power_analysis_ttest_ok[OF q, of 3 5 "sqrt 2" "sqrt 4"] by (auto simp: spec_cohens_d_def)
  show ?thesis
    unfolding run_power_analysis_def Let_def uneven_time_mean_c uneven_time_mean_v uneven_time_std_c
      uneven_time_std_v uneven_clicks_mean_c uneven_clicks_mean_v uneven_clicks_std_c
      uneven_clicks_std_v uneven_rate_c uneven_rate_v r1 r2 r3
    by simp
qed

lemma uneven_runs_statsmodels:
  "\<exists>out. run_power_analysis (Statsmodels example_statsmodels) example_lib uneven_df (5 / 100)
          = Inr out"
proof -
  obtain r1 where r1: "power_analysis_conversion (Statsmodels example_statsmodels) example_lib
        (Fin 0) (Fin 1) (5 / 100) default_power = Inr r1"
    using power_analysis_conversion_statsmodels_ok[where ?p1.0 = 0 and ?p2.0 = 1
        and L = example_lib and a = "5 / 100" and pw = default_power]
    by (auto simp: spec_cohens_h_def)
  obtain r2 where r2: "power_analysis_ttest (Statsmodels example_statsmodels) example_lib
        (Fin 2) (Fin 5) (Fin (sqrt 2)) (Fin (sqrt 7)) ''time_spent'' (5 / 100) default_power = Inr r2"
    using power_analysis_ttest_statsmodels_ok[where ?m1.0 = 2 and ?m2.0 = 5 and ?s1.0 = "sqrt 2"
        and ?s2.0 = "sqrt 7" and L = example_lib and name = "''time_spent''" and a = "5 / 100"
        and pw = default_power]
    by (auto simp: spec_cohens_d_def)
  obtain r3 where r3: "power_analysis_ttest (Statsmodels example_statsmodels) example_lib
        (Fin 3) (Fin 5) (Fin (sqrt 2)) (Fin (sqrt 4)) ''clicks'' (5 / 100) default_power = Inr r3"
    using power_analysis_ttest_statsmodels_ok[where ?m1.0 = 3 and ?m2.0 = 5 and ?s1.0 = "sqrt 2"
        and ?s2.0 = "sqrt 4" and L = example_lib and name = "''clicks''" and a = "5 / 100"
        and pw = default_power]
    by (auto simp: spec_cohens_d_def)
  show ?thesis
    unfolding run_power_analysis_def Let_def uneven_time_mean_c uneven_time_mean_v uneven_time_std_c
      uneven_time_std_v uneven_clicks_mean_c uneven_clicks_mean_v uneven_clicks_std_c
      uneven_clicks_std_v uneven_rate_c uneven_rate_v r1 r2 r3
    by simp
qed

section \<open>The observed sample size\<close>

text \<open>
  Claim C9. Whenever \<open>run_power_analysis\<close> returns, with statsmodels or with the module's
  own solvers, the field \<open>actual_sample_size_per_group\<close> of its output is the number of
  rows of the control partition; the variant partition has no part in it.
\<close>

theorem actual_sample_size_is_control:
  assumes "run_power_analysis bk L df a = Inr out"
  shows "actual_sample_size_per_group out = length (rows_of ''control'' df)"
  using assms
  by (auto simp: run_power_analysis_def Let_def split: sum.splits)

theorem actual_sample_size_is_control_witness:
  "(\<exists>out. run_power_analysis (Statsmodels example_statsmodels) example_lib uneven_df (5 / 100)
             = Inr out
      \<and> actual_sample_size_per_group out = 2)
   \<and> (\<exists>out. run_power_analysis Fallback example_lib uneven_df (5 / 100) = Inr out
      \<and> actual_sample_size_per_group out = 2)
   \<and> length (rows_of ''variant'' uneven_df) = 3"
proof -
  obtain o1 where o1: "run_power_analysis (Statsmodels example_statsmodels) example_lib uneven_df
      (5 / 100) = Inr o1"
    using uneven_runs_statsmodels by blast
  obtain o2 where o2: "run_power_analysis Fallback example_lib uneven_df (5 / 100) = Inr o2"
    using uneven_runs by blast
  have "actual_sample_size_per_group o1 = length (rows_of ''control'' uneven_df)"
    by (rule actual_sample_size_is_control[OF o1])
  then have s1: "actual_sample_size_per_group o1 = 2" by (simp add: uneven_control)
  have "actual_sample_size_per_group o2 = length (rows_of ''control'' uneven_df)"
    by (rule actual_sample_size_is_control[OF o2])
  then have s2: "actual_sample_size_per_group o2 = 2" by (simp add: uneven_control)
  have "length (rows_of ''variant'' uneven_df) = 3" by (simp add: uneven_variant)
  then show ?thesis using o1 o2 s1 s2 by blast
qed

section \<open>Bounds on the normal distribution function\<close>

lemma cdf_term_nonneg: "0 \<le> x \<Longrightarrow> 0 \<le> cdf_term x n"
  by (simp add: cdf_term_def)

lemma cdf_term_mono:
  assumes "0 \<le> x" "x \<le> 1"
  shows "cdf_term x (Suc n) \<le> cdf_term x n"
proof -
  have num: "x ^ (2 * Suc n + 1) \<le> x ^ (2 * n + 1)"
    using assms by (intro power_decreasing) simp_all
  have d0: "(0::real) < 2 ^ n * fact n * real (2 * n + 1)" by simp
  have "(fact n :: real) \<le> fact (Suc n)" by (rule fact_mono) simp
  then have "(2::real) ^ n * fact n \<le> 2 ^ Suc n * fact (Suc n)"
    by (intro mult_mono) simp_all
  then have den: "(2::real) ^ n * fact n * real (2 * n + 1)
      \<le> 2 ^ Suc n * fact (Suc n) * real (2 * Suc n + 1)"
    by (intro mult_mono) simp_all
  have "x ^ (2 * Suc n + 1) / (2 ^ Suc n * fact (Suc n) * real (2 * Suc n + 1))
      \<le> x ^ (2 * n + 1) / (2 ^ n * fact n * real (2 * n + 1))"
    using assms by (intro frac_le num den d0) simp
  then show ?thesis by (simp only: cdf_term_def)
qed

lemma cdf_term_tendsto:
  assumes "0 \<le> x" "x \<le> 1"
  shows "cdf_term x \<longlonglongrightarrow> 0"
proof -
  have lim: "(\<lambda>n. (1 / 2 :: real) ^ n) \<longlonglongrightarrow> 0"
    by (rule LIMSEQ_power_zero) simp
  have b: "norm (cdf_term x n) \<le> norm ((1 / 2 :: real) ^ n) * 1" for n
  proof -
    have x1: "x ^ (2 * n + 1) \<le> 1" using assms by (intro power_le_one) simp_all
    have "(2::real) ^ n * 1 * 1 \<le> 2 ^ n * fact n * real (2 * n + 1)"
      by (intro mult_mono) (simp_all add: fact_ge_1)
    then have d: "(2::real) ^ n \<le> 2 ^ n * fact n * real (2 * n + 1)" by simp
    have "x ^ (2 * n + 1) / (2 ^ n * fact n * real (2 * n + 1)) \<le> 1 / 2 ^ n"
      using assms by (intro frac_le x1 d) simp_all
    then show ?thesis
      using cdf_term_nonneg[OF assms(1), of n] by (simp add: cdf_term_def power_one_over)
  qed
  have "eventually (\<lambda>n. norm (cdf_term x n) \<le> norm ((1 / 2 :: real) ^ n) * 1) sequentially"
    using b by (intro always_eventually) blast
  with lim show ?thesis by (rule tendsto_0_le)
qed

lemma std_normal_cdf_series:
  "std_normal_cdf x = 1 / 2 + (\<Sum>n. (- 1) ^ n * cdf_term x n) / sqrt (2 * pi)"
  by (simp add: std_normal_cdf_def cdf_term_def)

lemma cdf_series_bounds:
  assumes "0 \<le> x" "x \<le> 1"
  shows "(\<Sum>i<2*n. (- 1) ^ i * cdf_term x i) \<le> (\<Sum>i. (- 1) ^ i * cdf_term x i)"
    and "(\<Sum>i. (- 1) ^ i * cdf_term x i) \<le> (\<Sum>i<2*n+1. (- 1) ^ i * cdf_term x i)"
proof -
  note L = summable_Leibniz'[OF cdf_term_tendsto[OF assms] cdf_term_nonneg[OF assms(1)]
      cdf_term_mono[OF assms]]
  show "(\<Sum>i<2*n. (- 1) ^ i * cdf_term x i) \<le> (\<Sum>i. (- 1) ^ i * cdf_term x i)"
    by (rule L(2))
  show "(\<Sum>i. (- 1) ^ i * cdf_term x i) \<le> (\<Sum>i<2*n+1. (- 1) ^ i * cdf_term x i)"
    by (rule L(4))
qed

lemma arctan_series_bounds:
  fixes x :: real
  assumes "0 < x" "x \<le> 1"
  shows "(\<Sum>i<2*n. (- 1) ^ i * (1 / real (i * 2 + 1) * x ^ (i * 2 + 1))) \<le> arctan x"
    and "arctan x \<le> (\<Sum>i<2*n+1. (- 1) ^ i * (1 / real (i * 2 + 1) * x ^ (i * 2 + 1)))"
proof -
  have a: "\<bar>x\<bar> \<le> 1" using assms by simp
  let ?a = "\<lambda>n. 1 / real (n * 2 + 1) * x ^ (n * 2 + 1)"
  have pos: "0 < ?a 0" using assms by simp
  have "(\<Sum>i. (- 1) ^ i * ?a i) \<in> {\<Sum>i<2*n. (- 1) ^ i * ?a i .. \<Sum>i<2*n+1. (- 1) ^ i * ?a i}"
    using summable_Leibniz(2)[OF zeroseq_arctan_series[OF a] monoseq_arctan_series[OF a]] pos
    by blast
  then have b: "(\<Sum>i<2*n. (- 1) ^ i * ?a i) \<le> arctan x"
      "arctan x \<le> (\<Sum>i<2*n+1. (- 1) ^ i * ?a i)"
    unfolding arctan_series[OF a] by simp_all
  show "(\<Sum>i<2*n. (- 1) ^ i * (1 / real (i * 2 + 1) * x ^ (i * 2 + 1))) \<le> arctan x" by (rule b(1))
  show "arctan x \<le> (\<Sum>i<2*n+1. (- 1) ^ i * (1 / real (i * 2 + 1) * x ^ (i * 2 + 1)))" by (rule b(2))
qed

lemma arctan_fifth_bounds:
  "(1973955597 / 10000000000 :: real) \<le> arctan (1 / 5)"
  "arctan (1 / 5) \<le> (1973955599 / 10000000000 :: real)"
proof -
  have "(\<Sum>i<2*3. (- 1) ^ i * (1 / real (i * 2 + 1) * (1 / 5 :: real) ^ (i * 2 + 1))) \<le> arctan (1 / 5)"
    by (rule arctan_series_bounds(1)) simp_all
  moreover have "(1973955597 / 10000000000 :: real)
      \<le> (\<Sum>i<2*3. (- 1) ^ i * (1 / real (i * 2 + 1) * (1 / 5 :: real) ^ (i * 2 + 1)))"
    by (simp add: eval_nat_numeral)
  ultimately show "(1973955597 / 10000000000 :: real) \<le> arctan (1 / 5)" by linarith
  have "arctan (1 / 5) \<le> (\<Sum>i<2*3+1. (- 1) ^ i * (1 / real (i * 2 + 1) * (1 / 5 :: real) ^ (i * 2 + 1)))"
    by (rule arctan_series_bounds(2)) simp_all
  moreover have "(\<Sum>i<2*3+1. (- 1) ^ i * (1 / real (i * 2 + 1) * (1 / 5 :: real) ^ (i * 2 + 1)))
      \<le> (1973955599 / 10000000000 :: real)"
    by (simp add: eval_nat_numeral)
  ultimately show "arctan (1 / 5) \<le> (1973955599 / 10000000000 :: real)" by linarith
qed

lemma arctan_239_bounds:
  "(41840760 / 10000000000 :: real) \<le> arctan (1 / 239)"
  "arctan (1 / 239) \<le> (41840761 / 10000000000 :: real)"
proof -
  have "(\<Sum>i<2*1. (- 1) ^ i * (1 / real (i * 2 + 1) * (1 / 239 :: real) ^ (i * 2 + 1))) \<le> arctan (1 / 239)"
    by (rule arctan_series_bounds(1)) simp_all
  moreover have "(41840760 / 10000000000 :: real)
      \<le> (\<Sum>i<2*1. (- 1) ^ i * (1 / real (i * 2 + 1) * (1 / 239 :: real) ^ (i * 2 + 1)))"
    by (simp add: eval_nat_numeral)
  ultimately show "(41840760 / 10000000000 :: real) \<le> arctan (1 / 239)" by linarith
  have "arctan (1 / 239) \<le> (\<Sum>i<2*1+1. (- 1) ^ i * (1 / real (i * 2 + 1) * (1 / 239 :: real) ^ (i * 2 + 1)))"
    by (rule arctan_series_bounds(2)) simp_all
  moreover have "(\<Sum>i<2*1+1. (- 1) ^ i * (1 / real (i * 2 + 1) * (1 / 239 :: real) ^ (i * 2 + 1)))
      \<le> (41840761 / 10000000000 :: real)"
    by (simp add: eval_nat_numeral)
  ultimately show "arctan (1 / 239) \<le> (41840761 / 10000000000 :: real)" by linarith
qed

lemma pi_bounds: "31415926508 / 10000000000 \<le> pi" "pi \<le> 31415926544 / 10000000000"
proof -
  have m: "pi = 16 * arctan (1 / 5) - 4 * arctan (1 / 239)" using machin by simp
  show "31415926508 / 10000000000 \<le> pi"
    unfolding m using arctan_fifth_bounds(1) arctan_239_bounds(2) by linarith
  show "pi \<le> 31415926544 / 10000000000"
    unfolding m using arctan_fifth_bounds(2) arctan_239_bounds(1) by linarith
qed

lemma sqrt_two_pi_bounds:
  "2506628273 / 1000000000 < sqrt (2 * pi)" "sqrt (2 * pi) < 2506628276 / 1000000000"
proof -
  have "(2506628273 / 1000000000 :: real)\<^sup>2 < 2 * pi"
    using pi_bounds(1) by (simp add: power2_eq_square)
  then show "2506628273 / 1000000000 < sqrt (2 * pi)"
    by (rule real_less_rsqrt)
  have "2 * pi < (2506628276 / 1000000000 :: real)\<^sup>2"
    using pi_bounds(2) by (simp add: power2_eq_square)
  then show "sqrt (2 * pi) < 2506628276 / 1000000000"
    by (intro real_less_lsqrt) simp_all
qed

lemma cdf_sum_bounds:
  "6852436080 / 10000000000 \<le> (\<Sum>i. (- 1) ^ i * cdf_term (3 / 4) i)"
  "(\<Sum>i. (- 1) ^ i * cdf_term (3 / 4) i) \<le> 6852436081 / 10000000000"
proof -
  have x: "(0::real) \<le> 3 / 4" "(3 / 4 :: real) \<le> 1" by simp_all
  have "(6852436080 / 10000000000 :: real) \<le> (\<Sum>i<2*4. (- 1) ^ i * cdf_term (3 / 4) i)"
    by (simp add: cdf_term_def eval_nat_numeral)
  then show "6852436080 / 10000000000 \<le> (\<Sum>i. (- 1) ^ i * cdf_term (3 / 4) i)"
    using cdf_series_bounds(1)[OF x, of 4] by linarith
  have "(\<Sum>i<2*4+1. (- 1) ^ i * cdf_term (3 / 4) i) \<le> (6852436081 / 10000000000 :: real)"
    by (simp add: cdf_term_def eval_nat_numeral)
  then show "(\<Sum>i. (- 1) ^ i * cdf_term (3 / 4) i) \<le> 6852436081 / 10000000000"
    using cdf_series_bounds(2)[OF x, of 4] by linarith
qed

lemma p_value_bounds:
  "4532545 / 10000000 < 2 * (1 - std_normal_cdf (3 / 4))"
  "2 * (1 - std_normal_cdf (3 / 4)) < 453255 / 1000000"
proof -
  define S where "S = (\<Sum>i. (- 1) ^ i * cdf_term (3 / 4) i)"
  define r where "r = sqrt (2 * pi)"
  have S: "6852436080 / 10000000000 \<le> S" "S \<le> 6852436081 / 10000000000"
    unfolding S_def by (rule cdf_sum_bounds)+
  have r: "2506628273 / 1000000000 < r" "r < 2506628276 / 1000000000"
    unfolding r_def by (rule sqrt_two_pi_bounds)+
  have r0: "0 < r" using r(1) by linarith
  have p: "2 * (1 - std_normal_cdf (3 / 4)) = 1 - 2 * (S / r)"
    by (simp add: std_normal_cdf_series S_def r_def)
  have up: "S / r \<le> (6852436081 / 10000000000) / (2506628273 / 1000000000)"
    using S r by (intro frac_le) simp_all
  have lo: "(6852436080 / 10000000000) / (2506628276 / 1000000000) \<le> S / r"
    using S r r0 by (intro frac_le) simp_all
  show "4532545 / 10000000 < 2 * (1 - std_normal_cdf (3 / 4))"
    unfolding p using up by simp
  show "2 * (1 - std_normal_cdf (3 / 4)) < 453255 / 1000000"
    unfolding p using lo by simp
qed

lemma round_half_even_up:
  assumes "of_int k + 1 / 2 < y" "y < of_int k + 1"
  shows "round_half_even y = k + 1"
proof -
  have f: "\<lfloor>y\<rfloor> = k" using assms by linarith
  show ?thesis unfolding round_half_even_def Let_def f using assms by simp
qed

lemma p_value_rounded: "round_to 6 (2 * (1 - std_normal_cdf (3 / 4))) = 453255 / 1000000"
proof -
  let ?p = "2 * (1 - std_normal_cdf (3 / 4))"
  have "of_int 453254 + 1 / 2 < ?p * 10 ^ 6" "?p * 10 ^ 6 < of_int 453254 + 1"
    using p_value_bounds by simp_all
  then have "round_half_even (?p * 10 ^ 6) = 453254 + 1" by (rule round_half_even_up)
  then show ?thesis by (simp add: round_to_def)
qed

lemma skewed_control: "rows_of ''control'' skewed_df = [obs ''control'' 0 1 2]"
  by (simp add: skewed_df_def rows_of_def obs_def)

lemma skewed_variant:
  "rows_of ''variant'' skewed_df =
     [obs ''variant'' 1 2 3, obs ''variant'' 1 3 3, obs ''variant'' 1 4 3, obs ''variant'' 0 5 3,
      obs ''variant'' 0 6 3, obs ''variant'' 0 7 3, obs ''variant'' 0 8 3, obs ''variant'' 0 9 3]"
  by (simp add: skewed_df_def rows_of_def obs_def)

lemma skewed_counts:
  "conversions (rows_of ''control'' skewed_df) = 0"
  "conversions (rows_of ''variant'' skewed_df) = 3"
  "length (rows_of ''control'' skewed_df) = 1"
  "length (rows_of ''variant'' skewed_df) = 8"
  by (simp_all add: skewed_control skewed_variant conversions_def obs_def)

lemma skewed_spec_se: "spec_se 0 3 1 8 = 1 / 2"
proof -
  have "sqrt (1 / 4 :: real) = 1 / 2" by (simp add: real_sqrt_divide)
  moreover have "spec_p_pool 0 3 1 8 * (1 - spec_p_pool 0 3 1 8) * (1 / real 1 + 1 / real 8) = 1 / 4"
    by (simp add: spec_p_pool_def)
  ultimately show ?thesis by (simp only: spec_se_def Let_def)
qed

lemma skewed_spec_z: "spec_z 0 3 1 8 = 3 / 4"
  unfolding spec_z_def Let_def skewed_spec_se by simp

lemma skewed_ztest:
  "bound_proportions_ztest bk L (3, 0) (int 8, int 1)
     = (Fin (3 / 4), Fin (2 * (1 - norm_cdf L (3 / 4))))"
proof -
  have b: "binary_conversions skewed_df"
    by (simp add: skewed_df_def binary_conversions_def obs_def)
  have ne: "rows_of ''control'' skewed_df \<noteq> []" "rows_of ''variant'' skewed_df \<noteq> []"
    by (simp_all add: skewed_control skewed_variant)
  have se: "0 < spec_se (conversions (rows_of ''control'' skewed_df))
               (conversions (rows_of ''variant'' skewed_df))
               (length (rows_of ''control'' skewed_df)) (length (rows_of ''variant'' skewed_df))"
    unfolding skewed_counts skewed_spec_se by simp
  show ?thesis
    using bound_ztest_on_partitions[OF b ne se, of bk L]
    unfolding skewed_counts skewed_spec_z by (simp add: spec_p_value_def)
qed

text \<open>
  Claim C10. For every dataset and \<open>alpha\<close>, and with either binding of
  \<open>proportions_ztest\<close>, the \<open>significant\<close> flag of the two-proportion test and of each
  t-test is the comparison \<open>p < alpha\<close> on the unrounded p-value, while the stored
  \<open>p_value\<close> is that value rounded to 6 decimals and the stored statistic is rounded to 4.
  Hence a result can be significant with a stored p-value that is not below \<open>alpha\<close>:
  with the standard normal CDF, the dataset of one control user and eight variant users
  above has \<open>p = 0.45325470...\<close>, so at \<open>alpha = 0.453255\<close> the result is significant and
  stores \<open>p_value = 0.453255\<close>.
\<close>

theorem significance_uses_unrounded_p_value:
  fixes bk :: backend and L :: stats_lib and df :: dataset and a :: real and m :: metric
  defines "zp \<equiv> bound_proportions_ztest bk L
      (conversions (rows_of ''variant'' df), conversions (rows_of ''control'' df))
      (int (length (rows_of ''variant'' df)), int (length (rows_of ''control'' df)))"
  defines "tp \<equiv> ttest_ind L (dropna (map (column m) (rows_of ''control'' df)))
      (dropna (map (column m) (rows_of ''variant'' df)))"
  shows "significant (two_proportion_ztest bk L df a) = flt (snd zp) (Fin a)
       \<and> p_value (two_proportion_ztest bk L df a) = fround (snd zp) 6
       \<and> statistic (two_proportion_ztest bk L df a) = fround (fst zp) 4
       \<and> significant (independent_ttest L df m a) = flt (snd tp) (Fin a)
       \<and> p_value (independent_ttest L df m a) = fround (snd tp) 6
       \<and> statistic (independent_ttest L df m a) = fround (fst tp) 4
       \<and> (norm_cdf L = std_normal_cdf \<longrightarrow>
            significant (two_proportion_ztest bk L skewed_df (453255 / 1000000))
          \<and> p_value (two_proportion_ztest bk L skewed_df (453255 / 1000000))
              = Fin (453255 / 1000000)
          \<and> fge (p_value (two_proportion_ztest bk L skewed_df (453255 / 1000000)))
              (Fin (453255 / 1000000)))"
proof -
  have general: "significant (two_proportion_ztest bk L df a) = flt (snd zp) (Fin a)
       \<and> p_value (two_proportion_ztest bk L df a) = fround (snd zp) 6
       \<and> statistic (two_proportion_ztest bk L df a) = fround (fst zp) 4
       \<and> significant (independent_ttest L df m a) = flt (snd tp) (Fin a)
       \<and> p_value (independent_ttest L df m a) = fround (snd tp) 6
       \<and> statistic (independent_ttest L df m a) = fround (fst tp) 4"
    unfolding zp_def tp_def
    by (simp add: two_proportion_ztest_def independent_ttest_def Let_def split: prod.splits)
  have special: "significant (two_proportion_ztest bk L skewed_df (453255 / 1000000))
          \<and> p_value (two_proportion_ztest bk L skewed_df (453255 / 1000000))
              = Fin (453255 / 1000000)
          \<and> fge (p_value (two_proportion_ztest bk L skewed_df (453255 / 1000000)))
              (Fin (453255 / 1000000))"
    if cdf: "norm_cdf L = std_normal_cdf"
  proof -
    have z: "bound_proportions_ztest bk L
        (conversions (rows_of ''variant'' skewed_df), conversions (rows_of ''control'' skewed_df))
        (int (length (rows_of ''variant'' skewed_df)), int (length (rows_of ''control'' skewed_df)))
        = (Fin (3 / 4), Fin (2 * (1 - std_normal_cdf (3 / 4))))"
      unfolding skewed_counts using skewed_ztest[of bk L] by (simp add: cdf)
    have lt: "flt (Fin (2 * (1 - std_normal_cdf (3 / 4)))) (Fin (453255 / 1000000))"
      using p_value_bounds(2) by (simp only: flt.simps)
    have rd: "fround (Fin (2 * (1 - std_normal_cdf (3 / 4)))) 6 = Fin (453255 / 1000000)"
      by (simp only: fround.simps p_value_rounded)
    have ge: "fge (Fin (453255 / 1000000)) (Fin (453255 / 1000000))"
      by (simp add: fge_def)
    show ?thesis
      unfolding two_proportion_ztest_def Let_def z
      using lt ge by (simp only: prod.case test_result.simps rd simp_thms)
  qed
  show ?thesis using general special by blast
qed

theorem significance_uses_unrounded_p_value_witness:
  "norm_cdf example_lib = std_normal_cdf
   \<and> significant (two_proportion_ztest (Statsmodels example_statsmodels) example_lib skewed_df
        (453255 / 1000000))
   \<and> p_value (two_proportion_ztest (Statsmodels example_statsmodels) example_lib skewed_df
        (453255 / 1000000))
       = Fin (453255 / 1000000)
   \<and> fge (p_value (two_proportion_ztest (Statsmodels example_statsmodels) example_lib skewed_df
        (453255 / 1000000)))
       (Fin (453255 / 1000000))"
proof -
  have c: "norm_cdf example_lib = std_normal_cdf" by (simp add: example_lib_def)
  show ?thesis
    using significance_uses_unrounded_p_value[where bk = "Statsmodels example_statsmodels"
        and L = example_lib and df = skewed_df and a = "453255 / 1000000" and m = Time_spent] c
    by blast
qed

end
